theory Spec2Isabelle
  imports Main
begin

section \<open>KanMind backend: the two variants of the board, task and comment API\<close>

text \<open>
  The repository holds two parallel Django REST framework implementations of the same
  Kanban backend: \<^verbatim>\<open>KanMind-Backend\<close> (called the first variant below) and
  \<^verbatim>\<open>KanMind_Backend\<close> (the second variant). Definitions carry the names of the
  source classes and methods; where both variants have a class of the same name, the
  definition of the first variant ends in \<open>1\<close> and that of the second in \<open>2\<close>.

  Rows are records, tables are lists in storage order, foreign keys are primary keys of
  the referenced row. Every modelled request is authenticated: \<open>request.user\<close> is the
  primary key of the user the token belongs to, so \<^verbatim>\<open>IsAuthenticated\<close> and
  \<^verbatim>\<open>request.user and request.user.is_authenticated\<close> hold throughout.
  A raised exception or an error response is the left summand of the result, named by
  the HTTP status the framework answers with. Primary keys are natural numbers within the
  range of the database's integer columns.
\<close>

subsection \<open>Rows and tables\<close>

text \<open>
  A user row carries its display name: the first variant keeps it in the one-to-one
  \<^verbatim>\<open>UserProfile.full_name\<close>, the second in \<^verbatim>\<open>User.fullname\<close>. The members of a board
  are the user keys of its many-to-many rows.
\<close>

record User =
  uid :: nat
  username :: string
  email :: string
  password :: string
  is_active :: bool
  fullname :: string

record Board =
  bid :: nat
  btitle :: string
  owner :: nat
  members :: "nat list"

text \<open>The second variant's Board adds two timestamps (boards\_app/models.py).\<close>

record Board2 = Board +
  created_at_b :: nat
  updated_at_b :: nat

record Task =
  tid :: nat
  board :: nat
  title :: string
  description :: string
  status :: string
  priority :: string
  assignee :: "nat option"
  reviewer :: "nat option"
  due_date :: "nat option"

record Comment =
  cid :: nat
  task :: nat
  author :: nat
  content :: string
  created_at :: nat

text \<open>
  Modelled from the spec: the second variant's tasks\_app/models.py is absent from the
  sources. Its Task has the fields the spec lists for a task (board, title, description,
  status, priority, assignee, reviewer, due date), which are the first variant's, and
  \<^verbatim>\<open>created_by\<close>, which \<^verbatim>\<open>TaskCreateSerializer.create\<close> writes and
  \<^verbatim>\<open>IsTaskCreatorOrBoardOwner\<close> reads. Its Comment has the fields of the first
  variant's TaskComment.
\<close>

record Task2 = Task +
  created_by :: nat

record ('b, 't) db =
  users :: "User list"
  boards :: "'b list"
  tasks :: "'t list"
  comments :: "Comment list"

datatype error =
    HTTP_400_BAD_REQUEST "(string \<times> string) list"
  | HTTP_403_FORBIDDEN string
  | HTTP_404_NOT_FOUND string
  | HTTP_500_INTERNAL_SERVER_ERROR string

subsection \<open>Board summary: member\_count\<close>

text \<open>First variant, \<^verbatim>\<open>BoardListSerializer.get_member_count\<close>: \<^verbatim>\<open>obj.members.count()\<close>.\<close>

definition get_member_count :: "'x Board_scheme \<Rightarrow> nat" where
  "get_member_count obj = length (members obj)"

text \<open>Second variant, \<^verbatim>\<open>Board.member_count\<close>: \<^verbatim>\<open>self.members.count() + 1  # +1 for owner\<close>.\<close>

definition member_count :: "Board2 \<Rightarrow> nat" where
  "member_count self = length (members self) + 1"

subsection \<open>Framework behaviour the views rely on\<close>

text \<open>
  \<^verbatim>\<open>get_object_or_404\<close> / \<^verbatim>\<open>GenericAPIView.get_object\<close>: the row of the
  queryset with the primary key of the URL, or a 404 answer.
\<close>

definition get_object_or_404 :: "'o list \<Rightarrow> ('o \<Rightarrow> nat) \<Rightarrow> nat \<Rightarrow> error + 'o" where
  "get_object_or_404 queryset pkf pk =
     (case find (\<lambda>obj. pkf obj = pk) queryset of
        None \<Rightarrow> Inl (HTTP_404_NOT_FOUND ''Not found.'')
      | Some obj \<Rightarrow> Inr obj)"

text \<open>
  A \<^verbatim>\<open>CharField\<close> trims its input with Python's \<^verbatim>\<open>str.strip()\<close> before anything
  else looks at the value; a value that is empty after trimming is blank.
\<close>

definition isspace :: "char \<Rightarrow> bool" where
  "isspace c = (c \<in> set [CHR 0x09, CHR 0x0A, CHR 0x0B, CHR 0x0C, CHR 0x0D,
                          CHR 0x1C, CHR 0x1D, CHR 0x1E, CHR 0x1F, CHR '' '', CHR 0x85, CHR 0xA0])"

definition strip :: "string \<Rightarrow> string" where
  "strip s = rev (dropWhile isspace (rev (dropWhile isspace s)))"

text \<open>\<^verbatim>\<open>APIView.permission_denied\<close> for an authenticated request.\<close>

definition permission_denied :: error where
  "permission_denied = HTTP_403_FORBIDDEN ''You do not have permission to perform this action.''"

text \<open>\<^verbatim>\<open>Meta.ordering = ['-id']\<close>: rows by descending primary key.\<close>

definition ordering_neg_id :: "('o \<Rightarrow> nat) \<Rightarrow> 'o list \<Rightarrow> 'o list" where
  "ordering_neg_id pkf rows = rev (sort_key pkf rows)"

text \<open>\<^verbatim>\<open>User.objects.filter(id__in=ids)\<close>, as the primary keys found.\<close>

definition User_objects_filter_id_in :: "('b, 't) db \<Rightarrow> nat list \<Rightarrow> nat list" where
  "User_objects_filter_id_in d ids = map uid (filter (\<lambda>u. uid u \<in> set ids) (users d))"

text \<open>
  \<^verbatim>\<open>Model.delete()\<close> with the collector following \<^verbatim>\<open>on_delete=models.CASCADE\<close>:
  \<^verbatim>\<open>TaskComment.task\<close> for a task, \<^verbatim>\<open>Task.board\<close> and then
  \<^verbatim>\<open>TaskComment.task\<close> for a board (first variant, tasks\_app/models.py).
\<close>

definition Task_delete ::
  "('b, 'y Task_scheme) db \<Rightarrow> nat \<Rightarrow> ('b, 'y Task_scheme) db" where
  "Task_delete d pk =
     d\<lparr>tasks := filter (\<lambda>t. tid t \<noteq> pk) (tasks d),
       comments := filter (\<lambda>c. task c \<noteq> pk) (comments d)\<rparr>"

definition Board_delete ::
  "('x Board_scheme, 'y Task_scheme) db \<Rightarrow> nat \<Rightarrow> ('x Board_scheme, 'y Task_scheme) db" where
  "Board_delete d pk =
     d\<lparr>boards := filter (\<lambda>b. bid b \<noteq> pk) (boards d),
       tasks := filter (\<lambda>t. board t \<noteq> pk) (tasks d),
       comments := filter (\<lambda>c. task c \<notin> set (map tid (filter (\<lambda>t. board t = pk) (tasks d))))
                     (comments d)\<rparr>"

text \<open>\<^verbatim>\<open>instance.save()\<close> of a board row: the row with its primary key is replaced.\<close>

definition Board_save :: "('x Board_scheme, 't) db \<Rightarrow> 'x Board_scheme \<Rightarrow> ('x Board_scheme, 't) db" where
  "Board_save d instance =
     d\<lparr>boards := map (\<lambda>b. if bid b = bid instance then instance else b) (boards d)\<rparr>"

subsection \<open>Boards, first variant (KanMind-Backend/boards\_app)\<close>

datatype action = A_list | A_create | A_retrieve | A_update | A_partial_update | A_destroy

text \<open>The body of a board update, as the client sent it; a key may be absent.\<close>

record BoardData =
  data_title :: "string option"
  data_members :: "nat list option"

text \<open>\<^verbatim>\<open>IsBoardMemberOrOwner.has_object_permission\<close>.\<close>

definition IsBoardMemberOrOwner_has_object_permission :: "nat \<Rightarrow> 'x Board_scheme \<Rightarrow> bool" where
  "IsBoardMemberOrOwner_has_object_permission request_user obj =
     (owner obj = request_user \<or> request_user \<in> set (members obj))"

text \<open>
  \<^verbatim>\<open>BoardViewSet.get_queryset\<close>: every board for the detail actions, the caller's
  boards otherwise; \<^verbatim>\<open>Board.Meta.ordering\<close> orders both.
\<close>

definition BoardViewSet1_get_queryset :: "(Board, Task) db \<Rightarrow> nat \<Rightarrow> action \<Rightarrow> Board list" where
  "BoardViewSet1_get_queryset d user act =
     (if act \<in> set [A_retrieve, A_update, A_partial_update, A_destroy]
      then ordering_neg_id bid (boards d)
      else ordering_neg_id bid
             (remdups (filter (\<lambda>b. owner b = user \<or> user \<in> set (members b)) (boards d))))"

text \<open>
  \<^verbatim>\<open>get_object\<close> under \<^verbatim>\<open>permission_classes = [IsAuthenticated, IsBoardMemberOrOwner]\<close>.
\<close>

definition BoardViewSet1_get_object :: "(Board, Task) db \<Rightarrow> nat \<Rightarrow> action \<Rightarrow> nat \<Rightarrow> error + Board" where
  "BoardViewSet1_get_object d user act pk =
     (case get_object_or_404 (BoardViewSet1_get_queryset d user act) bid pk of
        Inl e \<Rightarrow> Inl e
      | Inr obj \<Rightarrow>
          if IsBoardMemberOrOwner_has_object_permission user obj then Inr obj
          else Inl permission_denied)"

text \<open>\<^verbatim>\<open>BoardDetailSerializer\<close>: id, title, owner\_id, members, tasks.\<close>

definition BoardDetailSerializer1 ::
  "(Board, Task) db \<Rightarrow> Board \<Rightarrow> nat \<times> string \<times> nat \<times> User list \<times> Task list" where
  "BoardDetailSerializer1 d obj =
     (bid obj, btitle obj, owner obj,
      filter (\<lambda>u. uid u \<in> set (members obj)) (users d),
      ordering_neg_id tid (filter (\<lambda>t. board t = bid obj) (tasks d)))"

definition BoardViewSet1_retrieve ::
  "(Board, Task) db \<Rightarrow> nat \<Rightarrow> nat \<Rightarrow> error + (nat \<times> string \<times> nat \<times> User list \<times> Task list)" where
  "BoardViewSet1_retrieve d user pk =
     (case BoardViewSet1_get_object d user A_retrieve pk of
        Inl e \<Rightarrow> Inl e
      | Inr obj \<Rightarrow> Inr (BoardDetailSerializer1 d obj))"

text \<open>
  \<^verbatim>\<open>BoardUpdateSerializer.validate_members\<close>: every id must be a user's. The code's
  message lists the missing ids; it is abbreviated here.
\<close>

definition validate_members :: "(Board, Task) db \<Rightarrow> nat list \<Rightarrow> error + nat list" where
  "validate_members d val =
     (if filter (\<lambda>i. i \<notin> set (User_objects_filter_id_in d val)) val \<noteq> []
      then Inl (HTTP_400_BAD_REQUEST [(''members'', ''Users with these IDs do not exist.'')])
      else Inr val)"

text \<open>\<^verbatim>\<open>BoardUpdateSerializer.update\<close>.\<close>

definition BoardUpdateSerializer1_update :: "(Board, Task) db \<Rightarrow> Board \<Rightarrow> BoardData \<Rightarrow> Board" where
  "BoardUpdateSerializer1_update d instance validated_data =
     (let i1 = (case data_title validated_data of None \<Rightarrow> instance
                | Some t \<Rightarrow> instance\<lparr>btitle := t\<rparr>)
      in (case data_members validated_data of None \<Rightarrow> i1
          | Some ms \<Rightarrow> i1\<lparr>members := User_objects_filter_id_in d ms\<rparr>))"

text \<open>
  \<^verbatim>\<open>BoardViewSet.update\<close> (PUT and, through \<^verbatim>\<open>partial_update\<close>, PATCH; both
  fields are declared \<^verbatim>\<open>required=False\<close>); the title is trimmed.
\<close>

definition BoardViewSet1_update ::
  "(Board, Task) db \<Rightarrow> nat \<Rightarrow> nat \<Rightarrow> BoardData \<Rightarrow> (error + Board) \<times> (Board, Task) db" where
  "BoardViewSet1_update d user pk request_data =
     (case BoardViewSet1_get_object d user A_update pk of
        Inl e \<Rightarrow> (Inl e, d)
      | Inr instance \<Rightarrow>
          if map_option strip (data_title request_data) = Some []
          then (Inl (HTTP_400_BAD_REQUEST [(''title'', ''This field may not be blank.'')]), d)
          else
          (case (case data_members request_data of None \<Rightarrow> Inr []
                 | Some ms \<Rightarrow> validate_members d ms) of
             Inl e \<Rightarrow> (Inl e, d)
           | Inr _ \<Rightarrow>
               (let b = BoardUpdateSerializer1_update d instance
                          (request_data\<lparr>data_title := map_option strip (data_title request_data)\<rparr>)
                in (Inr b, Board_save d b))))"

text \<open>\<^verbatim>\<open>BoardViewSet.destroy\<close>: a second check after \<^verbatim>\<open>get_object\<close>.\<close>

definition BoardViewSet1_destroy ::
  "(Board, Task) db \<Rightarrow> nat \<Rightarrow> nat \<Rightarrow> (error + unit) \<times> (Board, Task) db" where
  "BoardViewSet1_destroy d user pk =
     (case BoardViewSet1_get_object d user A_destroy pk of
        Inl e \<Rightarrow> (Inl e, d)
      | Inr b \<Rightarrow>
          if owner b \<noteq> user then (Inl (HTTP_403_FORBIDDEN ''Just Owner can Delete.''), d)
          else (Inr (), Board_delete d (bid b)))"

text \<open>\<^verbatim>\<open>ListModelMixin.list\<close> over the caller's queryset, as the rows listed.\<close>

definition BoardViewSet1_list :: "(Board, Task) db \<Rightarrow> nat \<Rightarrow> Board list" where
  "BoardViewSet1_list d user = BoardViewSet1_get_queryset d user A_list"

subsection \<open>Boards, second variant (KanMind\_Backend/boards\_app)\<close>

text \<open>
  \<^verbatim>\<open>BoardViewSet.get_queryset\<close>:
  \<^verbatim>\<open>Board.objects.filter(Q(owner=user) | Q(members=user)).distinct()\<close>. The model
  declares no ordering and the query asks for none: the database may answer in any order.
  The rows are listed here as the table stores them, which is one such order.
\<close>

definition BoardViewSet2_get_queryset :: "(Board2, Task2) db \<Rightarrow> nat \<Rightarrow> Board2 list" where
  "BoardViewSet2_get_queryset d user =
     remdups (filter (\<lambda>b. owner b = user \<or> user \<in> set (members b)) (boards d))"

text \<open>\<^verbatim>\<open>IsBoardOwnerOrMember\<close> and \<^verbatim>\<open>IsBoardOwner\<close> of boards\_app/api/permissions.py.\<close>

definition IsBoardOwnerOrMember2_has_object_permission :: "nat \<Rightarrow> 'x Board_scheme \<Rightarrow> bool" where
  "IsBoardOwnerOrMember2_has_object_permission request_user obj =
     (owner obj = request_user \<or> request_user \<in> set (members obj))"

definition IsBoardOwner2_has_object_permission :: "nat \<Rightarrow> 'x Board_scheme \<Rightarrow> bool" where
  "IsBoardOwner2_has_object_permission request_user obj = (owner obj = request_user)"

text \<open>\<^verbatim>\<open>BoardViewSet.get_permissions\<close>, as the object-level check of the action.\<close>

definition BoardViewSet2_get_permissions :: "action \<Rightarrow> nat \<Rightarrow> Board2 \<Rightarrow> bool" where
  "BoardViewSet2_get_permissions act =
     (if act = A_destroy then IsBoardOwner2_has_object_permission
      else if act \<in> set [A_update, A_partial_update, A_retrieve]
      then IsBoardOwnerOrMember2_has_object_permission
      else (\<lambda>request_user obj. True))"

definition BoardViewSet2_get_object :: "(Board2, Task2) db \<Rightarrow> nat \<Rightarrow> action \<Rightarrow> nat \<Rightarrow> error + Board2" where
  "BoardViewSet2_get_object d user act pk =
     (case get_object_or_404 (BoardViewSet2_get_queryset d user) bid pk of
        Inl e \<Rightarrow> Inl e
      | Inr obj \<Rightarrow>
          if BoardViewSet2_get_permissions act user obj then Inr obj
          else Inl permission_denied)"

definition BoardDetailSerializer2 ::
  "(Board2, Task2) db \<Rightarrow> Board2 \<Rightarrow> nat \<times> string \<times> nat \<times> User list \<times> Task2 list" where
  "BoardDetailSerializer2 d obj =
     (bid obj, btitle obj, owner obj,
      filter (\<lambda>u. uid u \<in> set (members obj)) (users d),
      filter (\<lambda>t. board t = bid obj) (tasks d))"

definition BoardViewSet2_retrieve ::
  "(Board2, Task2) db \<Rightarrow> nat \<Rightarrow> nat \<Rightarrow> error + (nat \<times> string \<times> nat \<times> User list \<times> Task2 list)" where
  "BoardViewSet2_retrieve d user pk =
     (case BoardViewSet2_get_object d user A_retrieve pk of
        Inl e \<Rightarrow> Inl e
      | Inr obj \<Rightarrow> Inr (BoardDetailSerializer2 d obj))"

text \<open>
  \<^verbatim>\<open>BoardUpdateSerializer.update\<close>; unknown member ids are dropped by the filter.
  \<^verbatim>\<open>auto_now=True\<close> stamps \<^verbatim>\<open>updated_at\<close> with the clock \<open>now\<close>.
\<close>

definition BoardUpdateSerializer2_update ::
  "(Board2, Task2) db \<Rightarrow> nat \<Rightarrow> Board2 \<Rightarrow> BoardData \<Rightarrow> Board2" where
  "BoardUpdateSerializer2_update d now instance validated_data =
     (let i1 = (case data_title validated_data of None \<Rightarrow> instance
                | Some t \<Rightarrow> instance\<lparr>btitle := t\<rparr>);
          i2 = (case data_members validated_data of None \<Rightarrow> i1
                | Some ms \<Rightarrow> i1\<lparr>members := User_objects_filter_id_in d ms\<rparr>)
      in i2\<lparr>updated_at_b := now\<rparr>)"

text \<open>
  \<^verbatim>\<open>BoardViewSet.update\<close>, always \<^verbatim>\<open>partial=True\<close>; the title is the model's
  \<^verbatim>\<open>CharField(max_length=255)\<close>, trimmed.
\<close>

definition BoardViewSet2_update ::
  "(Board2, Task2) db \<Rightarrow> nat \<Rightarrow> nat \<Rightarrow> nat \<Rightarrow> BoardData \<Rightarrow> (error + Board2) \<times> (Board2, Task2) db" where
  "BoardViewSet2_update d now user pk request_data =
     (case BoardViewSet2_get_object d user A_update pk of
        Inl e \<Rightarrow> (Inl e, d)
      | Inr instance \<Rightarrow>
          (case map_option strip (data_title request_data) of
             Some t \<Rightarrow>
               if t = []
               then (Inl (HTTP_400_BAD_REQUEST [(''title'', ''This field may not be blank.'')]), d)
               else if 255 < length t
               then (Inl (HTTP_400_BAD_REQUEST
                       [(''title'', ''Ensure this field has no more than 255 characters.'')]), d)
               else (let b = BoardUpdateSerializer2_update d now instance
                               (request_data\<lparr>data_title := Some t\<rparr>)
                     in (Inr b, Board_save d b))
           | None \<Rightarrow>
               (let b = BoardUpdateSerializer2_update d now instance request_data
                in (Inr b, Board_save d b))))"

text \<open>
  \<^verbatim>\<open>BoardViewSet.destroy\<close>: \<^verbatim>\<open>get_object\<close> under \<^verbatim>\<open>IsBoardOwner\<close>, then
  \<^verbatim>\<open>board.delete()\<close>. The reach of the delete in this variant is modelled from the
  spec, the Task and Comment models being absent: a board owns its tasks and a task its
  comments, both by cascade, as the first variant declares.
\<close>

definition BoardViewSet2_destroy ::
  "(Board2, Task2) db \<Rightarrow> nat \<Rightarrow> nat \<Rightarrow> (error + unit) \<times> (Board2, Task2) db" where
  "BoardViewSet2_destroy d user pk =
     (case BoardViewSet2_get_object d user A_destroy pk of
        Inl e \<Rightarrow> (Inl e, d)
      | Inr b \<Rightarrow> (Inr (), Board_delete d (bid b)))"

definition BoardViewSet2_list :: "(Board2, Task2) db \<Rightarrow> nat \<Rightarrow> Board2 list" where
  "BoardViewSet2_list d user = BoardViewSet2_get_queryset d user"

subsection \<open>Tasks, first variant (KanMind-Backend/tasks\_app)\<close>

text \<open>
  The body of a task request. A key that is absent is \<open>None\<close>; \<^verbatim>\<open>assignee_id\<close>,
  \<^verbatim>\<open>reviewer_id\<close> and \<^verbatim>\<open>due_date\<close> may also be present and null. Strings are
  as the client sent them, dates as parsed.
\<close>

record TaskData =
  data_board :: "nat option"
  data_task_title :: "string option"
  data_description :: "string option"
  data_status :: "string option"
  data_priority :: "string option"
  data_assignee_id :: "nat option option"
  data_reviewer_id :: "nat option option"
  data_due_date :: "nat option option"

text \<open>The validated attributes: related fields hold the rows their keys name.\<close>

record 'b TaskAttrs =
  attrs_board :: "'b option"
  attrs_title :: "string option"
  attrs_description :: "string option"
  attrs_status :: "string option"
  attrs_priority :: "string option"
  attrs_assignee :: "User option option"
  attrs_reviewer :: "User option option"
  attrs_due_date :: "nat option option"

definition choices_status :: "string list" where
  "choices_status = [''to-do'', ''in-progress'', ''review'', ''done'']"

definition choices_priority :: "string list" where
  "choices_priority = [''low'', ''medium'', ''high'']"

text \<open>The foreign key \<^verbatim>\<open>task.board\<close>, read as a row.\<close>

definition task_board :: "('x Board_scheme, 't) db \<Rightarrow> 'y Task_scheme \<Rightarrow> error + 'x Board_scheme" where
  "task_board d obj =
     (case find (\<lambda>b. bid b = board obj) (boards d) of
        None \<Rightarrow> Inl (HTTP_500_INTERNAL_SERVER_ERROR ''Board.DoesNotExist'')
      | Some b \<Rightarrow> Inr b)"

text \<open>
  \<^verbatim>\<open>IsBoardOwnerOrMember.has_permission\<close>: on create the board named in the request
  decides; a falsy id refuses, an unknown id raises \<^verbatim>\<open>NotFound\<close>.
\<close>

definition IsBoardOwnerOrMember1_has_permission ::
  "(Board, Task) db \<Rightarrow> nat \<Rightarrow> action \<Rightarrow> TaskData \<Rightarrow> error + bool" where
  "IsBoardOwnerOrMember1_has_permission d request_user act request_data =
     (if act = A_create then
        (case data_board request_data of
           None \<Rightarrow> Inr False
         | Some board_id \<Rightarrow>
             if board_id = 0 then Inr False
             else (case find (\<lambda>b. bid b = board_id) (boards d) of
                     None \<Rightarrow> Inl (HTTP_404_NOT_FOUND ''Board with this ID does not exist.'')
                   | Some b \<Rightarrow> Inr (owner b = request_user \<or> request_user \<in> set (members b))))
      else Inr True)"

text \<open>\<^verbatim>\<open>IsBoardOwnerOrMember.has_object_permission\<close> on a task.\<close>

definition IsBoardOwnerOrMember1_has_object_permission ::
  "(Board, Task) db \<Rightarrow> nat \<Rightarrow> Task \<Rightarrow> error + bool" where
  "IsBoardOwnerOrMember1_has_object_permission d request_user obj =
     (case task_board d obj of
        Inl e \<Rightarrow> Inl e
      | Inr b \<Rightarrow> Inr (owner b = request_user \<or> request_user \<in> set (members b)))"

text \<open>\<^verbatim>\<open>IsBoardOwner\<close> of tasks\_app/api/permissions.py.\<close>

definition IsBoardOwner1_has_permission ::
  "(Board, Task) db \<Rightarrow> nat \<Rightarrow> action \<Rightarrow> TaskData \<Rightarrow> bool" where
  "IsBoardOwner1_has_permission d request_user act request_data =
     (if act = A_create then
        (case data_board request_data of
           None \<Rightarrow> False
         | Some board_id \<Rightarrow>
             if board_id = 0 then False
             else (case find (\<lambda>b. bid b = board_id) (boards d) of
                     None \<Rightarrow> False
                   | Some b \<Rightarrow> owner b = request_user))
      else True)"

definition IsBoardOwner1_has_object_permission ::
  "(Board, Task) db \<Rightarrow> nat \<Rightarrow> Task \<Rightarrow> error + bool" where
  "IsBoardOwner1_has_object_permission d request_user obj =
     (case task_board d obj of
        Inl e \<Rightarrow> Inl e
      | Inr b \<Rightarrow> Inr (owner b = request_user))"

text \<open>\<^verbatim>\<open>IsTaskOwner\<close>: the caller is the task's assignee.\<close>

definition IsTaskOwner_has_permission :: "nat \<Rightarrow> bool" where
  "IsTaskOwner_has_permission request_user = True"

definition IsTaskOwner_has_object_permission :: "nat \<Rightarrow> Task \<Rightarrow> bool" where
  "IsTaskOwner_has_object_permission request_user obj = (assignee obj = Some request_user)"

text \<open>
  The composition \<^verbatim>\<open>IsBoardOwner | IsTaskOwner\<close> that
  \<^verbatim>\<open>TaskViewSet.get_permissions\<close> returns for destroy. The framework's \<^verbatim>\<open>OR\<close>
  asks each operand for \<^verbatim>\<open>has_permission and has_object_permission\<close>, the second
  operand only when the first refuses.
\<close>

definition IsBoardOwner_or_IsTaskOwner_has_permission ::
  "(Board, Task) db \<Rightarrow> nat \<Rightarrow> action \<Rightarrow> TaskData \<Rightarrow> bool" where
  "IsBoardOwner_or_IsTaskOwner_has_permission d request_user act request_data =
     (IsBoardOwner1_has_permission d request_user act request_data
      \<or> IsTaskOwner_has_permission request_user)"

definition IsBoardOwner_or_IsTaskOwner_has_object_permission ::
  "(Board, Task) db \<Rightarrow> nat \<Rightarrow> action \<Rightarrow> TaskData \<Rightarrow> Task \<Rightarrow> error + bool" where
  "IsBoardOwner_or_IsTaskOwner_has_object_permission d request_user act request_data obj =
     (case (if IsBoardOwner1_has_permission d request_user act request_data
            then IsBoardOwner1_has_object_permission d request_user obj
            else Inr False) of
        Inl e \<Rightarrow> Inl e
      | Inr True \<Rightarrow> Inr True
      | Inr False \<Rightarrow>
          Inr (IsTaskOwner_has_permission request_user
               \<and> IsTaskOwner_has_object_permission request_user obj))"

definition no_data :: TaskData where
  "no_data = \<lparr>data_board = None, data_task_title = None, data_description = None,
              data_status = None, data_priority = None, data_assignee_id = None,
              data_reviewer_id = None, data_due_date = None\<rparr>"

text \<open>
  \<^verbatim>\<open>DestroyModelMixin.destroy\<close> under the permissions of the destroy action:
  \<^verbatim>\<open>check_permissions\<close>, \<^verbatim>\<open>get_object\<close> with
  \<^verbatim>\<open>check_object_permissions\<close>, then \<^verbatim>\<open>instance.delete()\<close>.
\<close>

definition TaskViewSet1_destroy ::
  "(Board, Task) db \<Rightarrow> nat \<Rightarrow> nat \<Rightarrow> (error + unit) \<times> (Board, Task) db" where
  "TaskViewSet1_destroy d request_user pk =
     (if \<not> IsBoardOwner_or_IsTaskOwner_has_permission d request_user A_destroy no_data
      then (Inl permission_denied, d)
      else (case get_object_or_404 (tasks d) tid pk of
              Inl e \<Rightarrow> (Inl e, d)
            | Inr obj \<Rightarrow>
                (case IsBoardOwner_or_IsTaskOwner_has_object_permission d request_user
                        A_destroy no_data obj of
                   Inl e \<Rightarrow> (Inl e, d)
                 | Inr False \<Rightarrow> (Inl permission_denied, d)
                 | Inr True \<Rightarrow> (Inr (), Task_delete d (tid obj)))))"

text \<open>
  Field validation of \<^verbatim>\<open>TaskSerializer\<close>, in the order of \<^verbatim>\<open>Meta.fields\<close>:
  the declared related fields look their key up in \<^verbatim>\<open>Board.objects.all()\<close> and
  \<^verbatim>\<open>User.objects.all()\<close>; the model gives the title its length bound and the
  status and priority their choices. Fields are required unless the update is partial or
  the declaration says otherwise. All field errors are collected into one answer.
\<close>

definition required_error :: "bool \<Rightarrow> string \<Rightarrow> 'a option \<Rightarrow> (string \<times> string) list" where
  "required_error partial field v =
     (if v = None \<and> \<not> partial then [(field, ''This field is required.'')] else [])"

definition TaskSerializer_field_errors ::
  "(Board, Task) db \<Rightarrow> bool \<Rightarrow> TaskData \<Rightarrow> (string \<times> string) list" where
  "TaskSerializer_field_errors d partial request_data =
     (case data_board request_data of
        None \<Rightarrow> required_error partial ''board'' (data_board request_data)
      | Some k \<Rightarrow> if find (\<lambda>b. bid b = k) (boards d) = None
                  then [(''board'', ''Invalid pk - object does not exist.'')] else [])
     @ (case data_task_title request_data of
          None \<Rightarrow> required_error partial ''title'' (data_task_title request_data)
        | Some t \<Rightarrow> if strip t = [] then [(''title'', ''This field may not be blank.'')]
                    else if 200 < length (strip t)
                    then [(''title'', ''Ensure this field has no more than 200 characters.'')]
                    else [])
     @ (case data_status request_data of
          None \<Rightarrow> []
        | Some s \<Rightarrow> if s \<in> set choices_status then []
                    else [(''status'', ''Not a valid choice.'')])
     @ (case data_priority request_data of
          None \<Rightarrow> []
        | Some p \<Rightarrow> if p \<in> set choices_priority then []
                    else [(''priority'', ''Not a valid choice.'')])
     @ (case data_assignee_id request_data of
          Some (Some k) \<Rightarrow> if find (\<lambda>u. uid u = k) (users d) = None
                           then [(''assignee_id'', ''Invalid pk - object does not exist.'')] else []
        | _ \<Rightarrow> [])
     @ (case data_reviewer_id request_data of
          Some (Some k) \<Rightarrow> if find (\<lambda>u. uid u = k) (users d) = None
                           then [(''reviewer_id'', ''Invalid pk - object does not exist.'')] else []
        | _ \<Rightarrow> [])"

definition related_user :: "('b, 't) db \<Rightarrow> nat option option \<Rightarrow> User option option" where
  "related_user d v =
     (case v of
        None \<Rightarrow> None
      | Some None \<Rightarrow> Some None
      | Some (Some k) \<Rightarrow> Some (find (\<lambda>u. uid u = k) (users d)))"

definition TaskSerializer_to_internal_value ::
  "(Board, Task) db \<Rightarrow> bool \<Rightarrow> TaskData \<Rightarrow> error + Board TaskAttrs" where
  "TaskSerializer_to_internal_value d partial request_data =
     (if TaskSerializer_field_errors d partial request_data \<noteq> []
      then Inl (HTTP_400_BAD_REQUEST (TaskSerializer_field_errors d partial request_data))
      else Inr \<lparr>attrs_board = (case data_board request_data of None \<Rightarrow> None
                               | Some k \<Rightarrow> find (\<lambda>b. bid b = k) (boards d)),
                attrs_title = map_option strip (data_task_title request_data),
                attrs_description = map_option strip (data_description request_data),
                attrs_status = data_status request_data,
                attrs_priority = data_priority request_data,
                attrs_assignee = related_user d (data_assignee_id request_data),
                attrs_reviewer = related_user d (data_reviewer_id request_data),
                attrs_due_date = data_due_date request_data\<rparr>)"

text \<open>\<^verbatim>\<open>TaskSerializer._get_board\<close>.\<close>

definition TaskSerializer_get_board ::
  "(Board, Task) db \<Rightarrow> Task option \<Rightarrow> Board TaskAttrs \<Rightarrow> error + Board" where
  "TaskSerializer_get_board d instance attrs =
     (case attrs_board attrs of
        Some b \<Rightarrow> Inr b
      | None \<Rightarrow>
          (case instance of
             Some i \<Rightarrow> task_board d i
           | None \<Rightarrow> Inl (HTTP_400_BAD_REQUEST [(''board'', ''Board must be provided.'')])))"

text \<open>\<^verbatim>\<open>TaskSerializer._validate_board_access\<close>.\<close>

definition TaskSerializer_validate_board_access :: "nat \<Rightarrow> Board \<Rightarrow> error + unit" where
  "TaskSerializer_validate_board_access request_user b =
     (if \<not> (owner b = request_user \<or> request_user \<in> set (members b))
      then Inl (HTTP_400_BAD_REQUEST
             [(''board'', ''You do not have access to this board. You must be the owner or a member.'')])
      else Inr ())"

text \<open>
  \<^verbatim>\<open>TaskSerializer._validate_user_role\<close>:
  \<^verbatim>\<open>if not board.members.filter(id=user.id).exists(): raise ValidationError\<close>.
  \<^verbatim>\<open>attrs.get('assignee')\<close> is \<^verbatim>\<open>None\<close> for an absent and for a null key.
\<close>

definition TaskSerializer_validate_user_role ::
  "User option \<Rightarrow> Board \<Rightarrow> string \<Rightarrow> string \<Rightarrow> error + unit" where
  "TaskSerializer_validate_user_role user b role_lower role_name =
     (case user of
        None \<Rightarrow> Inr ()
      | Some u \<Rightarrow>
          if uid u \<notin> set (members b)
          then Inl (HTTP_400_BAD_REQUEST [(role_lower, role_name @ '' must be Member of Board.'')])
          else Inr ())"

definition attrs_get :: "'a option option \<Rightarrow> 'a option" where
  "attrs_get v = (case v of None \<Rightarrow> None | Some x \<Rightarrow> x)"

text \<open>
  \<^verbatim>\<open>TaskSerializer._prevent_board_change\<close>; model instances compare by primary key.
\<close>

definition TaskSerializer_prevent_board_change ::
  "Task option \<Rightarrow> Board TaskAttrs \<Rightarrow> error + unit" where
  "TaskSerializer_prevent_board_change instance attrs =
     (case instance of
        None \<Rightarrow> Inr ()
      | Some i \<Rightarrow>
          (case attrs_board attrs of
             None \<Rightarrow> Inr ()
           | Some b \<Rightarrow>
               if bid b \<noteq> board i
               then Inl (HTTP_400_BAD_REQUEST
                      [(''board'', ''Changing the board of a task is not allowed.'')])
               else Inr ()))"

text \<open>\<^verbatim>\<open>TaskSerializer.validate\<close>.\<close>

definition TaskSerializer_validate ::
  "(Board, Task) db \<Rightarrow> nat \<Rightarrow> Task option \<Rightarrow> Board TaskAttrs \<Rightarrow> error + Board TaskAttrs" where
  "TaskSerializer_validate d request_user instance attrs =
     (case TaskSerializer_get_board d instance attrs of
        Inl e \<Rightarrow> Inl e
      | Inr b \<Rightarrow>
     (case (if instance = None then TaskSerializer_validate_board_access request_user b
            else Inr ()) of
        Inl e \<Rightarrow> Inl e
      | Inr _ \<Rightarrow>
     (case TaskSerializer_validate_user_role (attrs_get (attrs_assignee attrs)) b
             ''assignee'' ''Assignee'' of
        Inl e \<Rightarrow> Inl e
      | Inr _ \<Rightarrow>
     (case TaskSerializer_validate_user_role (attrs_get (attrs_reviewer attrs)) b
             ''reviewer'' ''Reviewer'' of
        Inl e \<Rightarrow> Inl e
      | Inr _ \<Rightarrow>
     (case TaskSerializer_prevent_board_change instance attrs of
        Inl e \<Rightarrow> Inl e
      | Inr _ \<Rightarrow> Inr attrs)))))"

text \<open>\<^verbatim>\<open>serializer.is_valid(raise_exception=True)\<close>: the fields, then \<^verbatim>\<open>validate\<close>.\<close>

definition TaskSerializer_is_valid ::
  "(Board, Task) db \<Rightarrow> nat \<Rightarrow> Task option \<Rightarrow> bool \<Rightarrow> TaskData \<Rightarrow> error + Board TaskAttrs" where
  "TaskSerializer_is_valid d request_user instance partial request_data =
     (case TaskSerializer_to_internal_value d partial request_data of
        Inl e \<Rightarrow> Inl e
      | Inr attrs \<Rightarrow> TaskSerializer_validate d request_user instance attrs)"

text \<open>The next value of an auto-increment primary key.\<close>

definition next_pk :: "nat list \<Rightarrow> nat" where
  "next_pk pks = Suc (fold max pks 0)"

text \<open>
  \<^verbatim>\<open>Task.objects.create(**validated_data)\<close> with the model's defaults; a task without a
  board violates the column's NOT NULL.
\<close>

definition Task_objects_create :: "(Board, Task) db \<Rightarrow> Board TaskAttrs \<Rightarrow> error + Task" where
  "Task_objects_create d attrs =
     (case (attrs_board attrs, attrs_title attrs) of
        (Some b, Some t) \<Rightarrow>
          Inr \<lparr>tid = next_pk (map tid (tasks d)), board = bid b, title = t,
               description = (case attrs_description attrs of None \<Rightarrow> [] | Some x \<Rightarrow> x),
               status = (case attrs_status attrs of None \<Rightarrow> ''to-do'' | Some x \<Rightarrow> x),
               priority = (case attrs_priority attrs of None \<Rightarrow> ''medium'' | Some x \<Rightarrow> x),
               assignee = map_option uid (attrs_get (attrs_assignee attrs)),
               reviewer = map_option uid (attrs_get (attrs_reviewer attrs)),
               due_date = attrs_get (attrs_due_date attrs)\<rparr>
      | _ \<Rightarrow> Inl (HTTP_500_INTERNAL_SERVER_ERROR ''IntegrityError''))"

text \<open>
  \<^verbatim>\<open>CreateModelMixin.create\<close> under \<^verbatim>\<open>IsBoardOwnerOrMember\<close>: permission, validation,
  insert.
\<close>

definition TaskViewSet1_create ::
  "(Board, Task) db \<Rightarrow> nat \<Rightarrow> TaskData \<Rightarrow> (error + Task) \<times> (Board, Task) db" where
  "TaskViewSet1_create d request_user request_data =
     (case IsBoardOwnerOrMember1_has_permission d request_user A_create request_data of
        Inl e \<Rightarrow> (Inl e, d)
      | Inr False \<Rightarrow>
          (Inl (HTTP_403_FORBIDDEN
             ''You must be the board owner or a member to perform this action.''), d)
      | Inr True \<Rightarrow>
          (case TaskSerializer_is_valid d request_user None False request_data of
             Inl e \<Rightarrow> (Inl e, d)
           | Inr attrs \<Rightarrow>
               (case Task_objects_create d attrs of
                  Inl e \<Rightarrow> (Inl e, d)
                | Inr t \<Rightarrow> (Inr t, d\<lparr>tasks := tasks d @ [t]\<rparr>))))"

text \<open>\<^verbatim>\<open>ModelSerializer.update\<close>: every validated attribute is set on the instance.\<close>

definition TaskSerializer_update :: "Task \<Rightarrow> Board TaskAttrs \<Rightarrow> Task" where
  "TaskSerializer_update instance attrs =
     instance\<lparr>board := (case attrs_board attrs of None \<Rightarrow> board instance | Some b \<Rightarrow> bid b),
              title := (case attrs_title attrs of None \<Rightarrow> title instance | Some x \<Rightarrow> x),
              description := (case attrs_description attrs of None \<Rightarrow> description instance
                              | Some x \<Rightarrow> x),
              status := (case attrs_status attrs of None \<Rightarrow> status instance | Some x \<Rightarrow> x),
              priority := (case attrs_priority attrs of None \<Rightarrow> priority instance
                           | Some x \<Rightarrow> x),
              assignee := (case attrs_assignee attrs of None \<Rightarrow> assignee instance
                           | Some x \<Rightarrow> map_option uid x),
              reviewer := (case attrs_reviewer attrs of None \<Rightarrow> reviewer instance
                           | Some x \<Rightarrow> map_option uid x),
              due_date := (case attrs_due_date attrs of None \<Rightarrow> due_date instance
                           | Some x \<Rightarrow> x)\<rparr>"

definition Task_save :: "('b, 'y Task_scheme) db \<Rightarrow> 'y Task_scheme \<Rightarrow> ('b, 'y Task_scheme) db" where
  "Task_save d instance =
     d\<lparr>tasks := map (\<lambda>t. if tid t = tid instance then instance else t) (tasks d)\<rparr>"

text \<open>
  \<^verbatim>\<open>UpdateModelMixin.update\<close> (PUT with \<open>partial = False\<close>, PATCH with
  \<open>partial = True\<close>) under \<^verbatim>\<open>IsBoardOwnerOrMember\<close>.
\<close>

definition TaskViewSet1_update ::
  "(Board, Task) db \<Rightarrow> nat \<Rightarrow> nat \<Rightarrow> bool \<Rightarrow> TaskData \<Rightarrow> (error + Task) \<times> (Board, Task) db" where
  "TaskViewSet1_update d request_user pk partial request_data =
     (case IsBoardOwnerOrMember1_has_permission d request_user
             (if partial then A_partial_update else A_update) request_data of
        Inl e \<Rightarrow> (Inl e, d)
      | Inr False \<Rightarrow>
          (Inl (HTTP_403_FORBIDDEN
             ''You must be the board owner or a member to perform this action.''), d)
      | Inr True \<Rightarrow>
     (case get_object_or_404 (tasks d) tid pk of
        Inl e \<Rightarrow> (Inl e, d)
      | Inr instance \<Rightarrow>
     (case IsBoardOwnerOrMember1_has_object_permission d request_user instance of
        Inl e \<Rightarrow> (Inl e, d)
      | Inr False \<Rightarrow>
          (Inl (HTTP_403_FORBIDDEN
             ''You must be the board owner or a member to perform this action.''), d)
      | Inr True \<Rightarrow>
     (case TaskSerializer_is_valid d request_user (Some instance) partial request_data of
        Inl e \<Rightarrow> (Inl e, d)
      | Inr attrs \<Rightarrow>
          (let t = TaskSerializer_update instance attrs
           in (Inr t, Task_save d t))))))"

subsection \<open>Task comments, first variant (TaskCommentsViewSet)\<close>

text \<open>
  The viewset declares no permission classes of its own; the project's default ones (the
  settings are not among the sources) are taken to admit every authenticated caller, so
  the checks written in the methods decide.
\<close>

text \<open>\<^verbatim>\<open>TaskComment.Meta.ordering = ['created_at']\<close>.\<close>

definition ordering_created_at :: "Comment list \<Rightarrow> Comment list" where
  "ordering_created_at rows = sort_key created_at rows"

text \<open>
  \<^verbatim>\<open>TaskCommentsViewSet.get_queryset\<close>: the task of the URL or 404, then the
  membership check on its board, then the task's comments.
\<close>

definition TaskCommentsViewSet_get_queryset ::
  "(Board, Task) db \<Rightarrow> nat \<Rightarrow> nat \<Rightarrow> error + Comment list" where
  "TaskCommentsViewSet_get_queryset d user task_pk =
     (case get_object_or_404 (tasks d) tid task_pk of
        Inl e \<Rightarrow> Inl e
      | Inr t \<Rightarrow>
          (case task_board d t of
             Inl e \<Rightarrow> Inl e
           | Inr b \<Rightarrow>
               if user \<noteq> owner b \<and> user \<notin> set (members b)
               then Inl (HTTP_403_FORBIDDEN
                      ''You do not have permission to view comments for this task.'')
               else Inr (ordering_created_at (filter (\<lambda>c. task c = tid t) (comments d)))))"

text \<open>\<^verbatim>\<open>ListModelMixin.list\<close>.\<close>

definition TaskCommentsViewSet_list ::
  "(Board, Task) db \<Rightarrow> nat \<Rightarrow> nat \<Rightarrow> error + Comment list" where
  "TaskCommentsViewSet_list d user task_pk = TaskCommentsViewSet_get_queryset d user task_pk"

text \<open>
  \<^verbatim>\<open>TaskCommentSerializer\<close>: the declared \<^verbatim>\<open>CharField\<close> requires the content,
  trims it and refuses a blank one; \<^verbatim>\<open>validate\<close> then tests
  \<^verbatim>\<open>not content or not content.strip()\<close> on the trimmed value.
\<close>

definition TaskCommentSerializer_is_valid :: "string option \<Rightarrow> error + string" where
  "TaskCommentSerializer_is_valid data_content =
     (case data_content of
        None \<Rightarrow> Inl (HTTP_400_BAD_REQUEST [(''content'', ''This field is required.'')])
      | Some c \<Rightarrow>
          if strip c = []
          then Inl (HTTP_400_BAD_REQUEST [(''content'', ''This field may not be blank.'')])
          else if strip (strip c) = []
          then Inl (HTTP_400_BAD_REQUEST [(''content'', ''Content cannot be empty.'')])
          else Inr (strip c))"

text \<open>\<^verbatim>\<open>TaskCommentsViewSet.create\<close>; \<open>now\<close> is the clock of \<^verbatim>\<open>auto_now_add\<close>.\<close>

definition TaskCommentsViewSet_create ::
  "(Board, Task) db \<Rightarrow> nat \<Rightarrow> nat \<Rightarrow> nat \<Rightarrow> string option
     \<Rightarrow> (error + Comment) \<times> (Board, Task) db" where
  "TaskCommentsViewSet_create d now user task_pk data_content =
     (case get_object_or_404 (tasks d) tid task_pk of
        Inl e \<Rightarrow> (Inl e, d)
      | Inr t \<Rightarrow>
          (case task_board d t of
             Inl e \<Rightarrow> (Inl e, d)
           | Inr b \<Rightarrow>
               if user \<noteq> owner b \<and> user \<notin> set (members b)
               then (Inl (HTTP_403_FORBIDDEN
                       ''You do not have permission to perform this action.''), d)
               else (case TaskCommentSerializer_is_valid data_content of
                       Inl e \<Rightarrow> (Inl e, d)
                     | Inr c \<Rightarrow>
                         (let row = \<lparr>cid = next_pk (map cid (comments d)), task = tid t,
                                     author = user, content = c, created_at = now\<rparr>
                          in (Inr row, d\<lparr>comments := comments d @ [row]\<rparr>)))))"

text \<open>
  \<^verbatim>\<open>TaskCommentsViewSet.destroy\<close>: \<^verbatim>\<open>get_object\<close> looks the comment up in
  \<^verbatim>\<open>get_queryset\<close>, then only the author may delete.
\<close>

definition TaskCommentsViewSet_destroy ::
  "(Board, Task) db \<Rightarrow> nat \<Rightarrow> nat \<Rightarrow> nat \<Rightarrow> (error + unit) \<times> (Board, Task) db" where
  "TaskCommentsViewSet_destroy d user task_pk pk =
     (case TaskCommentsViewSet_get_queryset d user task_pk of
        Inl e \<Rightarrow> (Inl e, d)
      | Inr queryset \<Rightarrow>
          (case get_object_or_404 queryset cid pk of
             Inl e \<Rightarrow> (Inl e, d)
           | Inr comment \<Rightarrow>
               if author comment \<noteq> user
               then (Inl (HTTP_403_FORBIDDEN
                       ''You do not have permission to delete this comment.''), d)
               else (Inr (), d\<lparr>comments := filter (\<lambda>c. cid c \<noteq> cid comment) (comments d)\<rparr>)))"

subsection \<open>Tasks, second variant (KanMind\_Backend/tasks\_app)\<close>

datatype http_method = GET | POST | PUT | PATCH | DELETE

text \<open>
  \<^verbatim>\<open>IsBoardMember.has_permission\<close>: only a POST that names a truthy board is checked;
  an unknown board refuses.
\<close>

definition IsBoardMember_has_permission ::
  "(Board2, Task2) db \<Rightarrow> nat \<Rightarrow> http_method \<Rightarrow> nat option \<Rightarrow> bool" where
  "IsBoardMember_has_permission d request_user method data_board_id =
     (if method = POST then
        (case data_board_id of
           None \<Rightarrow> True
         | Some board_id \<Rightarrow>
             if board_id = 0 then True
             else (case find (\<lambda>b. bid b = board_id) (boards d) of
                     None \<Rightarrow> False
                   | Some b \<Rightarrow> owner b = request_user \<or> request_user \<in> set (members b)))
      else True)"

text \<open>
  \<^verbatim>\<open>IsBoardMember.has_object_permission\<close>: \<^verbatim>\<open>board = obj.task.board\<close>. The argument
  \<open>obj_task\<close> is what \<^verbatim>\<open>obj.task\<close> evaluates to: a comment's task, or an error.
\<close>

definition IsBoardMember_has_object_permission ::
  "(Board2, Task2) db \<Rightarrow> nat \<Rightarrow> error + Task2 \<Rightarrow> error + bool" where
  "IsBoardMember_has_object_permission d request_user obj_task =
     (case obj_task of
        Inl e \<Rightarrow> Inl e
      | Inr t \<Rightarrow>
          (case task_board d t of
             Inl e \<Rightarrow> Inl e
           | Inr b \<Rightarrow> Inr (owner b = request_user \<or> request_user \<in> set (members b))))"

text \<open>\<^verbatim>\<open>IsTaskCreatorOrBoardOwner.has_object_permission\<close>.\<close>

definition IsTaskCreatorOrBoardOwner_has_object_permission ::
  "(Board2, Task2) db \<Rightarrow> nat \<Rightarrow> http_method \<Rightarrow> Task2 \<Rightarrow> error + bool" where
  "IsTaskCreatorOrBoardOwner_has_object_permission d request_user method obj =
     (if method = DELETE then
        (if created_by obj = request_user then Inr True
         else (case task_board d obj of
                 Inl e \<Rightarrow> Inl e
               | Inr b \<Rightarrow> Inr (owner b = request_user)))
      else Inr True)"

text \<open>
  \<^verbatim>\<open>TaskViewSet.get_object\<close> with the permissions \<^verbatim>\<open>get_permissions\<close> returns:
  \<^verbatim>\<open>IsBoardMember\<close> always, \<^verbatim>\<open>IsTaskCreatorOrBoardOwner\<close> after it for destroy.
  The second variant's Task model is not among the sources, so what \<^verbatim>\<open>obj.task\<close>
  gives on a Task is the parameter \<open>task_attr\<close>.
\<close>

definition TaskViewSet2_get_object ::
  "(Task2 \<Rightarrow> error + Task2) \<Rightarrow> (Board2, Task2) db \<Rightarrow> nat \<Rightarrow> action \<Rightarrow> http_method \<Rightarrow> nat
     \<Rightarrow> error + Task2" where
  "TaskViewSet2_get_object task_attr d request_user act method pk =
     (case get_object_or_404 (tasks d) tid pk of
        Inl e \<Rightarrow> Inl e
      | Inr obj \<Rightarrow>
          (case IsBoardMember_has_object_permission d request_user (task_attr obj) of
             Inl e \<Rightarrow> Inl e
           | Inr False \<Rightarrow> Inl permission_denied
           | Inr True \<Rightarrow>
               if act = A_destroy then
                 (case IsTaskCreatorOrBoardOwner_has_object_permission d request_user method obj of
                    Inl e \<Rightarrow> Inl e
                  | Inr False \<Rightarrow> Inl permission_denied
                  | Inr True \<Rightarrow> Inr obj)
               else Inr obj))"

text \<open>
  Modelled from the spec: the second variant's Task model is absent from the sources. A
  task has the fields the spec lists (and \<^verbatim>\<open>created_by\<close>); none of them is called
  \<^verbatim>\<open>task\<close>, so \<^verbatim>\<open>obj.task\<close> on a Task raises \<^verbatim>\<open>AttributeError\<close>, which the
  framework answers with a server error.
\<close>

definition task_attr_missing :: "Task2 \<Rightarrow> error + Task2" where
  "task_attr_missing obj = Inl (HTTP_500_INTERNAL_SERVER_ERROR ''AttributeError'')"

text \<open>\<^verbatim>\<open>TaskViewSet.destroy\<close>.\<close>

definition TaskViewSet2_destroy ::
  "(Task2 \<Rightarrow> error + Task2) \<Rightarrow> (Board2, Task2) db \<Rightarrow> nat \<Rightarrow> nat
     \<Rightarrow> (error + unit) \<times> (Board2, Task2) db" where
  "TaskViewSet2_destroy task_attr d request_user pk =
     (if \<not> IsBoardMember_has_permission d request_user DELETE None
      then (Inl permission_denied, d)
      else (case TaskViewSet2_get_object task_attr d request_user A_destroy DELETE pk of
              Inl e \<Rightarrow> (Inl e, d)
            | Inr obj \<Rightarrow> (Inr (), Task_delete d (tid obj))))"

text \<open>
  The validated data of the second variant's task serializers:
  \<^verbatim>\<open>assignee_id\<close> and \<^verbatim>\<open>reviewer_id\<close> are plain
  \<^verbatim>\<open>IntegerField(required=False, allow_null=True)\<close>, the board is the related row.
\<close>

record TaskAttrs2 =
  attrs2_board :: "Board2 option"
  attrs2_title :: "string option"
  attrs2_description :: "string option"
  attrs2_status :: "string option"
  attrs2_priority :: "string option"
  attrs2_assignee_id :: "nat option option"
  attrs2_reviewer_id :: "nat option option"
  attrs2_due_date :: "nat option option"

text \<open>
  Modelled from the spec: the field declarations of the second variant's Task model
  (tasks\_app/models.py of that variant is absent). A task belongs to exactly one board,
  has a title, an optional description, a status among to-do, in-progress, review, done,
  a priority among low, medium, high, and an optional due date. The serializer's
  \<^verbatim>\<open>Meta.fields\<close> decides which keys are read: \<^verbatim>\<open>TaskCreateSerializer\<close> reads
  \<^verbatim>\<open>board\<close>, \<^verbatim>\<open>TaskUpdateSerializer\<close> does not.
\<close>

definition Task2_field_errors ::
  "(Board2, Task2) db \<Rightarrow> bool \<Rightarrow> bool \<Rightarrow> TaskData \<Rightarrow> (string \<times> string) list" where
  "Task2_field_errors d with_board partial request_data =
     (if with_board then
        (case data_board request_data of
           None \<Rightarrow> required_error partial ''board'' (data_board request_data)
         | Some k \<Rightarrow> if find (\<lambda>b. bid b = k) (boards d) = None
                     then [(''board'', ''Invalid pk - object does not exist.'')] else [])
      else [])
     @ (case data_task_title request_data of
          None \<Rightarrow> required_error partial ''title'' (data_task_title request_data)
        | Some t \<Rightarrow> if strip t = [] then [(''title'', ''This field may not be blank.'')]
                    else [])
     @ (case data_status request_data of
          None \<Rightarrow> []
        | Some s \<Rightarrow> if s \<in> set choices_status then []
                    else [(''status'', ''Not a valid choice.'')])
     @ (case data_priority request_data of
          None \<Rightarrow> []
        | Some p \<Rightarrow> if p \<in> set choices_priority then []
                    else [(''priority'', ''Not a valid choice.'')])"

definition Task2_to_internal_value ::
  "(Board2, Task2) db \<Rightarrow> bool \<Rightarrow> bool \<Rightarrow> TaskData \<Rightarrow> error + TaskAttrs2" where
  "Task2_to_internal_value d with_board partial request_data =
     (if Task2_field_errors d with_board partial request_data \<noteq> []
      then Inl (HTTP_400_BAD_REQUEST (Task2_field_errors d with_board partial request_data))
      else Inr \<lparr>attrs2_board = (if with_board
                                then (case data_board request_data of None \<Rightarrow> None
                                      | Some k \<Rightarrow> find (\<lambda>b. bid b = k) (boards d))
                                else None),
                attrs2_title = map_option strip (data_task_title request_data),
                attrs2_description = map_option strip (data_description request_data),
                attrs2_status = data_status request_data,
                attrs2_priority = data_priority request_data,
                attrs2_assignee_id = data_assignee_id request_data,
                attrs2_reviewer_id = data_reviewer_id request_data,
                attrs2_due_date = data_due_date request_data\<rparr>)"

text \<open>
  The check both serializers make of an assignee or reviewer id:
  \<^verbatim>\<open>User.objects.get(id=...)\<close>, then
  \<^verbatim>\<open>if assignee != board.owner and assignee not in board.members.all(): raise\<close>.
\<close>

definition validate_board_user ::
  "(Board2, Task2) db \<Rightarrow> Board2 \<Rightarrow> nat \<Rightarrow> string \<Rightarrow> string \<Rightarrow> error + unit" where
  "validate_board_user d b user_id field role_name =
     (case find (\<lambda>u. uid u = user_id) (users d) of
        None \<Rightarrow> Inl (HTTP_400_BAD_REQUEST [(field, ''User does not exist.'')])
      | Some u \<Rightarrow>
          if uid u \<noteq> owner b \<and> uid u \<notin> set (members b)
          then Inl (HTTP_400_BAD_REQUEST [(field, role_name @ '' must be a member of the board.'')])
          else Inr ())"

text \<open>
  \<^verbatim>\<open>TaskCreateSerializer.validate\<close>: \<^verbatim>\<open>if board_id:\<close> holds for every board row,
  \<^verbatim>\<open>if assignee_id:\<close> for every id but null and 0.
\<close>

definition TaskCreateSerializer_validate ::
  "(Board2, Task2) db \<Rightarrow> TaskAttrs2 \<Rightarrow> error + TaskAttrs2" where
  "TaskCreateSerializer_validate d data =
     (case attrs2_board data of
        None \<Rightarrow> Inr data
      | Some board_id \<Rightarrow>
          (case find (\<lambda>b. bid b = bid board_id) (boards d) of
             None \<Rightarrow> Inl (HTTP_400_BAD_REQUEST [(''board'', ''Board does not exist.'')])
           | Some b \<Rightarrow>
          (case (case attrs_get (attrs2_assignee_id data) of
                   None \<Rightarrow> Inr ()
                 | Some k \<Rightarrow> if k = 0 then Inr ()
                             else validate_board_user d b k ''assignee_id'' ''Assignee'') of
             Inl e \<Rightarrow> Inl e
           | Inr _ \<Rightarrow>
          (case (case attrs_get (attrs2_reviewer_id data) of
                   None \<Rightarrow> Inr ()
                 | Some k \<Rightarrow> if k = 0 then Inr ()
                             else validate_board_user d b k ''reviewer_id'' ''Reviewer'') of
             Inl e \<Rightarrow> Inl e
           | Inr _ \<Rightarrow> Inr data))))"

text \<open>
  \<^verbatim>\<open>TaskCreateSerializer.create\<close>:
  \<^verbatim>\<open>Task.objects.create(**validated_data, created_by=..., assignee_id=..., reviewer_id=...)\<close>.
  A foreign key that names no row violates its constraint.
\<close>

definition fk_ok :: "('b, 't) db \<Rightarrow> nat option \<Rightarrow> bool" where
  "fk_ok d v = (case v of None \<Rightarrow> True | Some k \<Rightarrow> find (\<lambda>u. uid u = k) (users d) \<noteq> None)"

definition TaskCreateSerializer_create ::
  "(Board2, Task2) db \<Rightarrow> nat \<Rightarrow> TaskAttrs2 \<Rightarrow> error + Task2" where
  "TaskCreateSerializer_create d request_user validated_data =
     (case (attrs2_board validated_data, attrs2_title validated_data) of
        (Some b, Some t) \<Rightarrow>
          if fk_ok d (attrs_get (attrs2_assignee_id validated_data))
             \<and> fk_ok d (attrs_get (attrs2_reviewer_id validated_data))
          then Inr \<lparr>tid = next_pk (map tid (tasks d)), board = bid b, title = t,
                 description = (case attrs2_description validated_data of None \<Rightarrow> []
                                | Some x \<Rightarrow> x),
                 status = (case attrs2_status validated_data of None \<Rightarrow> ''to-do''
                           | Some x \<Rightarrow> x),
                 priority = (case attrs2_priority validated_data of None \<Rightarrow> ''medium''
                             | Some x \<Rightarrow> x),
                 assignee = attrs_get (attrs2_assignee_id validated_data),
                 reviewer = attrs_get (attrs2_reviewer_id validated_data),
                 due_date = attrs_get (attrs2_due_date validated_data),
                 created_by = request_user\<rparr>
          else Inl (HTTP_500_INTERNAL_SERVER_ERROR ''IntegrityError'')
      | _ \<Rightarrow> Inl (HTTP_500_INTERNAL_SERVER_ERROR ''IntegrityError''))"

text \<open>\<^verbatim>\<open>TaskViewSet.create\<close> under \<^verbatim>\<open>[IsAuthenticated(), IsBoardMember()]\<close>.\<close>

definition TaskViewSet2_create ::
  "(Board2, Task2) db \<Rightarrow> nat \<Rightarrow> TaskData \<Rightarrow> (error + Task2) \<times> (Board2, Task2) db" where
  "TaskViewSet2_create d request_user request_data =
     (if \<not> IsBoardMember_has_permission d request_user POST (data_board request_data)
      then (Inl permission_denied, d)
      else (case Task2_to_internal_value d True False request_data of
              Inl e \<Rightarrow> (Inl e, d)
            | Inr attrs \<Rightarrow>
                (case TaskCreateSerializer_validate d attrs of
                   Inl e \<Rightarrow> (Inl e, d)
                 | Inr validated_data \<Rightarrow>
                     (case TaskCreateSerializer_create d request_user validated_data of
                        Inl e \<Rightarrow> (Inl e, d)
                      | Inr t \<Rightarrow> (Inr t, d\<lparr>tasks := tasks d @ [t]\<rparr>)))))"

text \<open>
  \<^verbatim>\<open>TaskUpdateSerializer.validate\<close>: the instance's board decides; here the test is
  \<^verbatim>\<open>is not None\<close>.
\<close>

definition TaskUpdateSerializer_validate ::
  "(Board2, Task2) db \<Rightarrow> Task2 \<Rightarrow> TaskAttrs2 \<Rightarrow> error + TaskAttrs2" where
  "TaskUpdateSerializer_validate d instance data =
     (case task_board d instance of
        Inl e \<Rightarrow> Inl e
      | Inr b \<Rightarrow>
          (case (case attrs_get (attrs2_assignee_id data) of
                   None \<Rightarrow> Inr ()
                 | Some k \<Rightarrow> validate_board_user d b k ''assignee_id'' ''Assignee'') of
             Inl e \<Rightarrow> Inl e
           | Inr _ \<Rightarrow>
          (case (case attrs_get (attrs2_reviewer_id data) of
                   None \<Rightarrow> Inr ()
                 | Some k \<Rightarrow> validate_board_user d b k ''reviewer_id'' ''Reviewer'') of
             Inl e \<Rightarrow> Inl e
           | Inr _ \<Rightarrow> Inr data)))"

text \<open>
  \<^verbatim>\<open>TaskUpdateSerializer.update\<close>: the ids are popped and set only when not
  \<^verbatim>\<open>None\<close>; every other validated attribute is set. The serializer has no board field.
\<close>

definition TaskUpdateSerializer_update :: "Task2 \<Rightarrow> TaskAttrs2 \<Rightarrow> Task2" where
  "TaskUpdateSerializer_update instance validated_data =
     instance\<lparr>title := (case attrs2_title validated_data of None \<Rightarrow> title instance
                        | Some x \<Rightarrow> x),
              description := (case attrs2_description validated_data of
                                None \<Rightarrow> description instance | Some x \<Rightarrow> x),
              status := (case attrs2_status validated_data of None \<Rightarrow> status instance
                         | Some x \<Rightarrow> x),
              priority := (case attrs2_priority validated_data of None \<Rightarrow> priority instance
                           | Some x \<Rightarrow> x),
              assignee := (case attrs_get (attrs2_assignee_id validated_data) of
                             None \<Rightarrow> assignee instance | Some k \<Rightarrow> Some k),
              reviewer := (case attrs_get (attrs2_reviewer_id validated_data) of
                             None \<Rightarrow> reviewer instance | Some k \<Rightarrow> Some k),
              due_date := (case attrs2_due_date validated_data of None \<Rightarrow> due_date instance
                           | Some x \<Rightarrow> x)\<rparr>"

text \<open>
  \<^verbatim>\<open>TaskViewSet.update\<close> (also behind \<^verbatim>\<open>partial_update\<close>), always
  \<^verbatim>\<open>partial=True\<close>. \<^verbatim>\<open>IsBoardMember.has_permission\<close> passes every method but POST.
\<close>

definition TaskViewSet2_update ::
  "(Task2 \<Rightarrow> error + Task2) \<Rightarrow> (Board2, Task2) db \<Rightarrow> nat \<Rightarrow> nat \<Rightarrow> http_method \<Rightarrow> TaskData
     \<Rightarrow> (error + Task2) \<times> (Board2, Task2) db" where
  "TaskViewSet2_update task_attr d request_user pk method request_data =
     (if \<not> IsBoardMember_has_permission d request_user method (data_board request_data)
      then (Inl permission_denied, d)
      else (case TaskViewSet2_get_object task_attr d request_user A_update method pk of
              Inl e \<Rightarrow> (Inl e, d)
            | Inr instance \<Rightarrow>
                (case Task2_to_internal_value d False True request_data of
                   Inl e \<Rightarrow> (Inl e, d)
                 | Inr attrs \<Rightarrow>
                     (case TaskUpdateSerializer_validate d instance attrs of
                        Inl e \<Rightarrow> (Inl e, d)
                      | Inr validated_data \<Rightarrow>
                          (let t = TaskUpdateSerializer_update instance validated_data
                           in (Inr t, Task_save d t))))))"

subsection \<open>Comments, second variant (CommentViewSet)\<close>

text \<open>The body of a comment request: the content, and whatever else the client adds.\<close>

record CommentData =
  data_content :: "string option"
  data_comment_board :: "nat option"

text \<open>The foreign key \<^verbatim>\<open>comment.task\<close>, read as a row.\<close>

definition comment_task :: "('b, 'y Task_scheme) db \<Rightarrow> Comment \<Rightarrow> error + 'y Task_scheme" where
  "comment_task d obj =
     (case find (\<lambda>t. tid t = task obj) (tasks d) of
        None \<Rightarrow> Inl (HTTP_500_INTERNAL_SERVER_ERROR ''Task.DoesNotExist'')
      | Some t \<Rightarrow> Inr t)"

text \<open>\<^verbatim>\<open>IsCommentAuthor.has_object_permission\<close>.\<close>

definition IsCommentAuthor_has_object_permission :: "nat \<Rightarrow> http_method \<Rightarrow> Comment \<Rightarrow> bool" where
  "IsCommentAuthor_has_object_permission request_user method obj =
     (if method = DELETE then author obj = request_user else True)"

text \<open>
  \<^verbatim>\<open>CommentSerializer\<close>: the content is the only writable field.
  Modelled from the spec: the second variant's Comment model is absent from the sources;
  a comment's content is text that is non-empty after trimming.
\<close>

definition CommentSerializer_is_valid :: "string option \<Rightarrow> error + string" where
  "CommentSerializer_is_valid c =
     (case c of
        None \<Rightarrow> Inl (HTTP_400_BAD_REQUEST [(''content'', ''This field is required.'')])
      | Some x \<Rightarrow>
          if strip x = []
          then Inl (HTTP_400_BAD_REQUEST [(''content'', ''This field may not be blank.'')])
          else Inr (strip x))"

text \<open>
  \<^verbatim>\<open>CommentViewSet.create\<close> under \<^verbatim>\<open>[IsAuthenticated(), IsBoardMember()]\<close>: the view
  never calls \<^verbatim>\<open>get_object\<close>, so only \<^verbatim>\<open>has_permission\<close> is asked.
\<close>

definition CommentViewSet_create ::
  "(Board2, Task2) db \<Rightarrow> nat \<Rightarrow> nat \<Rightarrow> nat \<Rightarrow> CommentData
     \<Rightarrow> (error + Comment) \<times> (Board2, Task2) db" where
  "CommentViewSet_create d now request_user task_pk request_data =
     (if \<not> IsBoardMember_has_permission d request_user POST (data_comment_board request_data)
      then (Inl permission_denied, d)
      else (case find (\<lambda>t. tid t = task_pk) (tasks d) of
              None \<Rightarrow> (Inl (HTTP_404_NOT_FOUND ''Task not found.''), d)
            | Some t \<Rightarrow>
                (case CommentSerializer_is_valid (data_content request_data) of
                   Inl e \<Rightarrow> (Inl e, d)
                 | Inr c \<Rightarrow>
                     (let row = \<lparr>cid = next_pk (map cid (comments d)), task = tid t,
                                 author = request_user, content = c, created_at = now\<rparr>
                      in (Inr row, d\<lparr>comments := comments d @ [row]\<rparr>)))))"

text \<open>\<^verbatim>\<open>CommentViewSet.list\<close>: \<^verbatim>\<open>task.comments.all().order_by('created_at')\<close>.\<close>

definition CommentViewSet_list ::
  "(Board2, Task2) db \<Rightarrow> nat \<Rightarrow> nat \<Rightarrow> error + Comment list" where
  "CommentViewSet_list d request_user task_pk =
     (if \<not> IsBoardMember_has_permission d request_user GET None
      then Inl permission_denied
      else (case find (\<lambda>t. tid t = task_pk) (tasks d) of
              None \<Rightarrow> Inl (HTTP_404_NOT_FOUND ''Task not found.'')
            | Some t \<Rightarrow> Inr (sort_key created_at (filter (\<lambda>c. task c = tid t) (comments d)))))"

text \<open>
  \<^verbatim>\<open>CommentViewSet.destroy\<close>: \<^verbatim>\<open>get_object\<close> over the task's comments with
  \<^verbatim>\<open>IsBoardMember\<close> and \<^verbatim>\<open>IsCommentAuthor\<close>, then the view's own author check.
\<close>

definition CommentViewSet_destroy ::
  "(Board2, Task2) db \<Rightarrow> nat \<Rightarrow> nat \<Rightarrow> nat \<Rightarrow> (error + unit) \<times> (Board2, Task2) db" where
  "CommentViewSet_destroy d request_user task_pk pk =
     (if \<not> IsBoardMember_has_permission d request_user DELETE None
      then (Inl permission_denied, d)
      else (case get_object_or_404
                   (sort_key created_at (filter (\<lambda>c. task c = task_pk) (comments d))) cid pk of
              Inl e \<Rightarrow> (Inl e, d)
            | Inr comment \<Rightarrow>
                (case IsBoardMember_has_object_permission d request_user (comment_task d comment) of
                   Inl e \<Rightarrow> (Inl e, d)
                 | Inr False \<Rightarrow> (Inl permission_denied, d)
                 | Inr True \<Rightarrow>
                     if \<not> IsCommentAuthor_has_object_permission request_user DELETE comment
                     then (Inl permission_denied, d)
                     else if author comment \<noteq> request_user
                     then (Inl (HTTP_403_FORBIDDEN ''You can only delete your own comments.''), d)
                     else (Inr (), d\<lparr>comments :=
                                       filter (\<lambda>c. cid c \<noteq> cid comment) (comments d)\<rparr>))))"

subsection \<open>Registration and login\<close>

text \<open>
  The stored \<^verbatim>\<open>password\<close> stands for the credential hash: \<^verbatim>\<open>set_password\<close> stores
  the password and \<^verbatim>\<open>check_password\<close> compares with it. A token row belongs to
  exactly one user, so \<^verbatim>\<open>Token.objects.get_or_create(user=user)\<close> is named by the user.
  All keys of a request are present. A registration request is the body as the client
  sent it: the serializer fields trim their values, and the first variant also reads the
  untrimmed body. A login request is given by the values its two fields deliver.
  \<open>EmailValidator\<close> is Django's validator of that name, which an \<^verbatim>\<open>EmailField\<close>
  applies; its pattern is not part of the sources.
\<close>

definition blank_error :: "string \<Rightarrow> string \<Rightarrow> (string \<times> string) list" where
  "blank_error field v = (if v = [] then [(field, ''This field may not be blank.'')] else [])"

definition email_format_error ::
  "(string \<Rightarrow> bool) \<Rightarrow> string \<Rightarrow> (string \<times> string) list" where
  "email_format_error EmailValidator v =
     (if \<not> EmailValidator v then [(''email'', ''Enter a valid email address.'')] else [])"

definition check_password :: "User \<Rightarrow> string \<Rightarrow> bool" where
  "check_password u raw_password = (password u = raw_password)"

datatype token = Token nat

record RegistrationData =
  reg_fullname :: string
  reg_email :: string
  reg_password :: string
  reg_repeated_password :: string

record LoginData =
  login_email :: string
  login_password :: string


text \<open>The answer of both registration and login: token, fullname, email, user\_id.\<close>

type_synonym auth_response = "token \<times> string \<times> string \<times> nat"

definition auth_response_of :: "User \<Rightarrow> auth_response" where
  "auth_response_of u = (Token (uid u), fullname u, email u, uid u)"

paragraph \<open>First variant (KanMind-Backend/auth\_app)\<close>






text \<open>\<^verbatim>\<open>LoginSerializer.validate_email\<close>, after the checks of the \<^verbatim>\<open>EmailField\<close>.\<close>

definition LoginSerializer_validate_email ::
  "(string \<Rightarrow> bool) \<Rightarrow> ('b, 't) db \<Rightarrow> string \<Rightarrow> (string \<times> string) list" where
  "LoginSerializer_validate_email EmailValidator d val =
     (if val = [] then [(''email'', ''This field may not be blank.'')]
      else if \<not> EmailValidator val then [(''email'', ''Enter a valid email address.'')]
      else if filter (\<lambda>u. email u = val) (users d) = []
      then [(''email'', ''Invalid Email.'')] else [])"

text \<open>
  \<^verbatim>\<open>User.objects.get(email=email)\<close>: one row, or \<^verbatim>\<open>DoesNotExist\<close>, or
  \<^verbatim>\<open>MultipleObjectsReturned\<close>.
\<close>

datatype 'a get_result = DoesNotExist | MultipleObjectsReturned | Row 'a

definition User_objects_get_email :: "('b, 't) db \<Rightarrow> string \<Rightarrow> User get_result" where
  "User_objects_get_email d e =
     (case filter (\<lambda>u. email u = e) (users d) of
        [] \<Rightarrow> DoesNotExist
      | [u] \<Rightarrow> Row u
      | _ \<Rightarrow> MultipleObjectsReturned)"

text \<open>\<^verbatim>\<open>LoginSerializer.get\<close>.\<close>

definition LoginSerializer_get :: "('b, 't) db \<Rightarrow> LoginData \<Rightarrow> error + User" where
  "LoginSerializer_get d validated_data =
     (case User_objects_get_email d (login_email validated_data) of
        DoesNotExist \<Rightarrow> Inl (HTTP_500_INTERNAL_SERVER_ERROR ''User.DoesNotExist'')
      | MultipleObjectsReturned \<Rightarrow> Inl (HTTP_500_INTERNAL_SERVER_ERROR ''MultipleObjectsReturned'')
      | Row user \<Rightarrow>
          if \<not> check_password user (login_password validated_data)
          then Inl (HTTP_400_BAD_REQUEST [(''error'', ''Invalid password.'')])
          else Inr user)"

text \<open>\<^verbatim>\<open>LoginView.post\<close>: \<^verbatim>\<open>is_valid(raise_exception=True)\<close>, then \<^verbatim>\<open>get()\<close>.\<close>

definition LoginView_post ::
  "(string \<Rightarrow> bool) \<Rightarrow> ('b, 't) db \<Rightarrow> LoginData \<Rightarrow> error + auth_response" where
  "LoginView_post EmailValidator d request_data =
     (let errors = LoginSerializer_validate_email EmailValidator d (login_email request_data)
                   @ blank_error ''password'' (login_password request_data)
      in if errors \<noteq> [] then Inl (HTTP_400_BAD_REQUEST errors)
         else (case LoginSerializer_get d request_data of
                 Inl e \<Rightarrow> Inl e
               | Inr user \<Rightarrow> Inr (auth_response_of user)))"

paragraph \<open>Second variant (KanMind\_Backend/auth\_app)\<close>





text \<open>
  \<^verbatim>\<open>authenticate(username=..., password=...)\<close> with Django's model backend: the user
  of that username, if the password checks and the account is active.
\<close>

definition authenticate :: "('b, 't) db \<Rightarrow> string \<Rightarrow> string \<Rightarrow> User option" where
  "authenticate d uname raw_password =
     (case find (\<lambda>u. username u = uname) (users d) of
        None \<Rightarrow> None
      | Some u \<Rightarrow> if check_password u raw_password \<and> is_active u then Some u else None)"

text \<open>
  The view \<^verbatim>\<open>login\<close>: the \<^verbatim>\<open>EmailField\<close> and the password \<^verbatim>\<open>CharField\<close> of
  \<^verbatim>\<open>LoginSerializer\<close>, then the lookup and \<^verbatim>\<open>authenticate\<close>.
\<close>

definition LoginSerializer2_errors ::
  "(string \<Rightarrow> bool) \<Rightarrow> LoginData \<Rightarrow> (string \<times> string) list" where
  "LoginSerializer2_errors EmailValidator request_data =
     (if login_email request_data = [] then [(''email'', ''This field may not be blank.'')]
      else email_format_error EmailValidator (login_email request_data))
     @ blank_error ''password'' (login_password request_data)"

definition login ::
  "(string \<Rightarrow> bool) \<Rightarrow> ('b, 't) db \<Rightarrow> LoginData \<Rightarrow> error + auth_response" where
  "login EmailValidator d request_data =
     (if LoginSerializer2_errors EmailValidator request_data \<noteq> []
      then Inl (HTTP_400_BAD_REQUEST (LoginSerializer2_errors EmailValidator request_data))
      else
     (case User_objects_get_email d (login_email request_data) of
        DoesNotExist \<Rightarrow> Inl (HTTP_400_BAD_REQUEST [(''error'', ''Invalid credentials.'')])
      | MultipleObjectsReturned \<Rightarrow> Inl (HTTP_500_INTERNAL_SERVER_ERROR ''MultipleObjectsReturned'')
      | Row user \<Rightarrow>
          (case authenticate d (username user) (login_password request_data) of
             Some u \<Rightarrow> Inr (auth_response_of u)
           | None \<Rightarrow> Inl (HTTP_400_BAD_REQUEST [(''error'', ''Invalid credentials.'')]))))"

subsection \<open>Reading a response\<close>

definition succeeds :: "error + 'a \<Rightarrow> bool" where
  "succeeds r = (case r of Inr _ \<Rightarrow> True | Inl _ \<Rightarrow> False)"

definition is_forbidden :: "error + 'a \<Rightarrow> bool" where
  "is_forbidden r = (case r of Inl (HTTP_403_FORBIDDEN _) \<Rightarrow> True | _ \<Rightarrow> False)"

definition is_not_found :: "error + 'a \<Rightarrow> bool" where
  "is_not_found r = (case r of Inl (HTTP_404_NOT_FOUND _) \<Rightarrow> True | _ \<Rightarrow> False)"

definition is_validation_error :: "error + 'a \<Rightarrow> bool" where
  "is_validation_error r = (case r of Inl (HTTP_400_BAD_REQUEST _) \<Rightarrow> True | _ \<Rightarrow> False)"

subsection \<open>A small store used for the concrete checks\<close>

definition board_a :: Board where
  "board_a = \<lparr>bid = 1, btitle = ''Sprint 1'', owner = 1, members = [2]\<rparr>"

definition board_b :: Board where
  "board_b = \<lparr>bid = 2, btitle = ''Sprint 2'', owner = 1, members = [2, 3]\<rparr>"

definition user_ex :: "nat \<Rightarrow> string \<Rightarrow> User" where
  "user_ex k e = \<lparr>uid = k, username = e, email = e, password = ''pw-of-'' @ e,
                  is_active = True, fullname = e\<rparr>"

definition users_ex :: "User list" where
  "users_ex = [user_ex 1 ''a@x.org'', user_ex 2 ''b@x.org'', user_ex 3 ''c@x.org'',
               user_ex 4 ''d@x.org'']"

definition task_a :: Task where
  "task_a = \<lparr>tid = 1, board = 1, title = ''Write'', description = [], status = ''to-do'',
              priority = ''medium'', assignee = Some 2, reviewer = None, due_date = None\<rparr>"

definition task_b :: Task where
  "task_b = \<lparr>tid = 2, board = 2, title = ''Read'', description = [], status = ''to-do'',
              priority = ''high'', assignee = Some 3, reviewer = None, due_date = None\<rparr>"

definition comment_a :: Comment where
  "comment_a = \<lparr>cid = 1, task = 1, author = 2, content = ''first'', created_at = 5\<rparr>"

definition comment_b :: Comment where
  "comment_b = \<lparr>cid = 2, task = 2, author = 3, content = ''second'', created_at = 6\<rparr>"

definition db1_ex :: "(Board, Task) db" where
  "db1_ex = \<lparr>users = users_ex, boards = [board_a, board_b], tasks = [task_a, task_b],
              comments = [comment_a, comment_b]\<rparr>"

definition task_a2 :: Task2 where
  "task_a2 = Task.extend task_a (Task2.fields 1)"

definition task_b2 :: Task2 where
  "task_b2 = Task.extend task_b (Task2.fields 2)"

definition db2_ex :: "(Board2, Task2) db" where
  "db2_ex = \<lparr>users = users_ex,
              boards = [Board.extend board_a (Board2.fields 10 10),
                        Board.extend board_b (Board2.fields 20 20)],
              tasks = [task_a2, task_b2],
              comments = [comment_a, comment_b]\<rparr>"

definition task_data_owner :: TaskData where
  "task_data_owner = no_data\<lparr>data_board := Some 1, data_task_title := Some ''Plan'',
                              data_assignee_id := Some (Some 1)\<rparr>"

definition task_data_outsider :: TaskData where
  "task_data_outsider = no_data\<lparr>data_board := Some 1, data_task_title := Some ''Plan'',
                                 data_assignee_id := Some (Some 4)\<rparr>"

definition task_data_move :: TaskData where
  "task_data_move = no_data\<lparr>data_board := Some 2, data_task_title := Some ''Renamed''\<rparr>"

definition reg_short :: RegistrationData where
  "reg_short = \<lparr>reg_fullname = ''Eve'', reg_email = ''e@x.org'', reg_password = ''abc'',
                 reg_repeated_password = ''abd''\<rparr>"

definition reg_mismatch :: RegistrationData where
  "reg_mismatch = \<lparr>reg_fullname = ''Eve'', reg_email = ''e@x.org'',
                    reg_password = ''long-enough-1'', reg_repeated_password = ''long-enough-2''\<rparr>"

definition reg_taken :: RegistrationData where
  "reg_taken = \<lparr>reg_fullname = ''Eve'', reg_email = ''a@x.org'',
                 reg_password = ''long-enough-1'', reg_repeated_password = ''long-enough-1''\<rparr>"

definition reg_trailing :: RegistrationData where
  "reg_trailing = \<lparr>reg_fullname = ''Eve'', reg_email = ''e@x.org'',
                    reg_password = ''long-enough-1 '', reg_repeated_password = ''long-enough-1''\<rparr>"

text \<open>A stand-in for the email validator in the concrete checks: an address has an at sign.\<close>

definition has_at :: "string \<Rightarrow> bool" where
  "has_at v = (CHR ''@'' \<in> set v)"

section \<open>Verified properties\<close>

subsection \<open>Lookups, orderings and responses\<close>

lemma find_unique_pk:
  assumes "distinct (map f xs)" "x \<in> set xs" "set ys = set xs"
  shows "find (\<lambda>y. f y = f x) ys = Some x"
proof (cases "find (\<lambda>y. f y = f x) ys")
  case None
  then show ?thesis using assms by (auto simp: find_None_iff)
next
  case (Some y)
  then obtain i where "i < length ys" "f (ys ! i) = f x" "y = ys ! i"
    unfolding find_Some_iff by blast
  then have "y \<in> set ys" "f y = f x" by simp_all
  then have "y \<in> set xs" "f y = f x" using assms(3) by auto
  moreover have "inj_on f (set xs)" using assms(1) by (simp add: distinct_map)
  ultimately have "y = x" using assms(2) by (auto dest: inj_onD)
  then show ?thesis using Some by simp
qed

lemma set_ordering_neg_id [simp]: "set (ordering_neg_id f xs) = set xs"
  by (simp add: ordering_neg_id_def)

lemma get_object_or_404_unique:
  "distinct (map f xs) \<Longrightarrow> x \<in> set xs \<Longrightarrow> set ys = set xs \<Longrightarrow> get_object_or_404 ys f (f x) = Inr x"
  by (simp add: get_object_or_404_def find_unique_pk)

lemma BoardViewSet1_get_object_eq:
  assumes "distinct (map bid (boards d))" "B \<in> set (boards d)"
      "act \<in> {A_retrieve, A_update, A_partial_update, A_destroy}"
  shows "BoardViewSet1_get_object d U act (bid B) =
           (if owner B = U \<or> U \<in> set (members B) then Inr B else Inl permission_denied)"
proof -
  have "get_object_or_404 (BoardViewSet1_get_queryset d U act) bid (bid B) = Inr B"
    using assms by (intro get_object_or_404_unique[where xs="boards d"]) (auto simp: BoardViewSet1_get_queryset_def)
  then show ?thesis
    by (simp add: BoardViewSet1_get_object_def IsBoardMemberOrOwner_has_object_permission_def)
qed

lemma BoardViewSet2_get_object_eq:
  assumes "distinct (map bid (boards d))" "B \<in> set (boards d)"
  shows "BoardViewSet2_get_object d U act (bid B) =
           (if owner B = U \<or> U \<in> set (members B)
            then (if BoardViewSet2_get_permissions act U B then Inr B else Inl permission_denied)
            else Inl (HTTP_404_NOT_FOUND ''Not found.''))"
proof (cases "owner B = U \<or> U \<in> set (members B)")
  case True
  have inj: "inj_on bid (set (boards d))" using assms(1) by (simp add: distinct_map)
  have sub: "set (BoardViewSet2_get_queryset d U) \<subseteq> set (boards d)"
    by (auto simp: BoardViewSet2_get_queryset_def)
  have "distinct (BoardViewSet2_get_queryset d U)"
    by (simp add: BoardViewSet2_get_queryset_def)
  with inj_on_subset[OF inj sub] have d: "distinct (map bid (BoardViewSet2_get_queryset d U))"
    by (simp add: distinct_map)
  have "B \<in> set (BoardViewSet2_get_queryset d U)"
    using assms(2) True by (auto simp: BoardViewSet2_get_queryset_def)
  then have "get_object_or_404 (BoardViewSet2_get_queryset d U) bid (bid B) = Inr B"
    using d by (intro get_object_or_404_unique[where xs="BoardViewSet2_get_queryset d U"]) auto
  then show ?thesis using True
    by (simp add: BoardViewSet2_get_object_def)
next
  case False
  have "\<forall>y \<in> set (BoardViewSet2_get_queryset d U). bid y \<noteq> bid B"
  proof
    fix y assume y: "y \<in> set (BoardViewSet2_get_queryset d U)"
    then have "y \<in> set (boards d)" "owner y = U \<or> U \<in> set (members y)"
      by (auto simp: BoardViewSet2_get_queryset_def)
    moreover have "inj_on bid (set (boards d))" using assms(1) by (simp add: distinct_map)
    ultimately show "bid y \<noteq> bid B" using assms(2) False by (auto dest: inj_onD)
  qed
  then have "find (\<lambda>obj. bid obj = bid B) (BoardViewSet2_get_queryset d U) = None"
    by (auto simp: find_None_iff)
  then show ?thesis using False
    by (simp add: BoardViewSet2_get_object_def get_object_or_404_def)
qed

lemma sorted_wrt_ordering_neg_id: "sorted_wrt (\<lambda>x y. f y \<le> f x) (ordering_neg_id f xs)"
proof -
  have "sorted (map f (sort_key f xs))" by simp
  then have "sorted_wrt (\<lambda>x y. f x \<le> f y) (sort_key f xs)" by (simp add: sorted_map)
  then show ?thesis
    by (simp add: ordering_neg_id_def sorted_wrt_rev)
qed

lemma succeeds_simps [simp]: "succeeds (Inr x)" "\<not> succeeds (Inl e)"
  by (simp_all add: succeeds_def)

lemma is_forbidden_simps [simp]:
  "\<not> is_forbidden (Inr x)" "is_forbidden (Inl (HTTP_403_FORBIDDEN m))"
  "\<not> is_forbidden (Inl (HTTP_404_NOT_FOUND m))" "\<not> is_forbidden (Inl (HTTP_400_BAD_REQUEST es))"
  "\<not> is_forbidden (Inl (HTTP_500_INTERNAL_SERVER_ERROR m))"
  "is_forbidden (Inl permission_denied)"
  by (simp_all add: is_forbidden_def permission_denied_def)

lemma is_not_found_simps [simp]:
  "\<not> is_not_found (Inr x)" "\<not> is_not_found (Inl (HTTP_403_FORBIDDEN m))"
  "is_not_found (Inl (HTTP_404_NOT_FOUND m))" "\<not> is_not_found (Inl (HTTP_400_BAD_REQUEST es))"
  "\<not> is_not_found (Inl (HTTP_500_INTERNAL_SERVER_ERROR m))"
  "\<not> is_not_found (Inl permission_denied)"
  by (simp_all add: is_not_found_def permission_denied_def)

lemma is_validation_error_simps [simp]:
  "\<not> is_validation_error (Inr x)" "\<not> is_validation_error (Inl (HTTP_403_FORBIDDEN m))"
  "\<not> is_validation_error (Inl (HTTP_404_NOT_FOUND m))"
  "is_validation_error (Inl (HTTP_400_BAD_REQUEST es))"
  "\<not> is_validation_error (Inl (HTTP_500_INTERNAL_SERVER_ERROR m))"
  "\<not> is_validation_error (Inl permission_denied)"
  by (simp_all add: is_validation_error_def permission_denied_def)

lemmas ex_defs = db1_ex_def db2_ex_def board_a_def board_b_def task_a_def task_b_def
  task_a2_def task_b2_def users_ex_def user_ex_def comment_a_def comment_b_def
  Board.extend_def Task.extend_def Board2.fields_def Task2.fields_def

lemmas data_ex_defs = task_data_owner_def task_data_outsider_def task_data_move_def no_data_def
  reg_short_def reg_mismatch_def reg_taken_def reg_trailing_def

subsection \<open>Task deletion, step by step\<close>

lemma TaskViewSet1_destroy_eq:
  assumes "distinct (map tid (tasks d))" and "T \<in> set (tasks d)"
      and "task_board d T = Inr B"
  shows "TaskViewSet1_destroy d U (tid T) =
           (if owner B = U \<or> assignee T = Some U then (Inr (), Task_delete d (tid T))
            else (Inl permission_denied, d))"
proof -
  have g: "get_object_or_404 (tasks d) tid (tid T) = Inr T"
    using assms(1,2) by (intro get_object_or_404_unique[where xs="tasks d"]) auto
  show ?thesis
    by (auto simp: TaskViewSet1_destroy_def g IsBoardOwner_or_IsTaskOwner_has_permission_def
        IsBoardOwner_or_IsTaskOwner_has_object_permission_def IsBoardOwner1_has_permission_def
        IsBoardOwner1_has_object_permission_def IsTaskOwner_has_permission_def
        IsTaskOwner_has_object_permission_def assms(3) split: bool.splits)
qed

lemma TaskViewSet2_destroy_only_if:
  assumes "distinct (map tid (tasks d))" and "T \<in> set (tasks d)"
      and "task_board d T = Inr B"
      and "succeeds (fst (TaskViewSet2_destroy task_attr d U (tid T)))"
  shows "created_by T = U \<or> owner B = U"
proof -
  have g: "get_object_or_404 (tasks d) tid (tid T) = Inr T"
    using assms(1,2) by (intro get_object_or_404_unique[where xs="tasks d"]) auto
  show ?thesis
    using assms(4)
    by (auto simp: TaskViewSet2_destroy_def TaskViewSet2_get_object_def g
        IsTaskCreatorOrBoardOwner_has_object_permission_def assms(3)
        split: if_splits sum.splits bool.splits)
qed

lemma TaskViewSet2_destroy_unchanged:
  "\<not> succeeds (fst (TaskViewSet2_destroy task_attr d U pk))
     \<Longrightarrow> snd (TaskViewSet2_destroy task_attr d U pk) = d"
  by (auto simp: TaskViewSet2_destroy_def split: if_splits sum.splits)

subsection \<open>Comment views, step by step\<close>

lemma TaskCommentsViewSet_get_queryset_eq:
  assumes "distinct (map tid (tasks d))" and "T \<in> set (tasks d)"
      and "task_board d T = Inr B"
  shows "TaskCommentsViewSet_get_queryset d U (tid T) =
           (if U = owner B \<or> U \<in> set (members B)
            then Inr (ordering_created_at (filter (\<lambda>c. task c = tid T) (comments d)))
            else Inl (HTTP_403_FORBIDDEN
                   ''You do not have permission to view comments for this task.''))"
proof -
  have g: "get_object_or_404 (tasks d) tid (tid T) = Inr T"
    using assms(1,2) by (intro get_object_or_404_unique[where xs="tasks d"]) auto
  show ?thesis
    by (auto simp: TaskCommentsViewSet_get_queryset_def g assms(3))
qed

lemma TaskCommentsViewSet_create_eq:
  assumes "distinct (map tid (tasks d))" and "T \<in> set (tasks d)"
      and "task_board d T = Inr B"
  shows "TaskCommentsViewSet_create d now U (tid T) c =
           (if U = owner B \<or> U \<in> set (members B)
            then (case TaskCommentSerializer_is_valid c of
                    Inl e \<Rightarrow> (Inl e, d)
                  | Inr x \<Rightarrow>
                      (Inr \<lparr>cid = next_pk (map cid (comments d)), task = tid T, author = U,
                            content = x, created_at = now\<rparr>,
                       d\<lparr>comments := comments d @
                           [\<lparr>cid = next_pk (map cid (comments d)), task = tid T, author = U,
                             content = x, created_at = now\<rparr>]\<rparr>))
            else (Inl (HTTP_403_FORBIDDEN ''You do not have permission to perform this action.''), d))"
proof -
  have g: "get_object_or_404 (tasks d) tid (tid T) = Inr T"
    using assms(1,2) by (intro get_object_or_404_unique[where xs="tasks d"]) auto
  show ?thesis
    by (auto simp: TaskCommentsViewSet_create_def g assms(3) Let_def split: sum.splits)
qed

lemma TaskCommentsViewSet_destroy_eq:
  assumes "distinct (map tid (tasks d))" and "T \<in> set (tasks d)"
      and "task_board d T = Inr B"
      and "distinct (map cid (comments d))" and "C \<in> set (comments d)" and "task C = tid T"
  shows "TaskCommentsViewSet_destroy d U (tid T) (cid C) =
           (if U = owner B \<or> U \<in> set (members B)
            then (if author C \<noteq> U
                  then (Inl (HTTP_403_FORBIDDEN
                          ''You do not have permission to delete this comment.''), d)
                  else (Inr (), d\<lparr>comments := filter (\<lambda>c. cid c \<noteq> cid C) (comments d)\<rparr>))
            else (Inl (HTTP_403_FORBIDDEN
                    ''You do not have permission to view comments for this task.''), d))"
proof -
  let ?qs = "filter (\<lambda>c. task c = tid T) (comments d)"
  have dq: "distinct (map cid ?qs)"
    using assms(4) by (simp add: distinct_map_filter)
  have cq: "C \<in> set ?qs" using assms(5,6) by simp
  have g: "get_object_or_404 (ordering_created_at ?qs) cid (cid C) = Inr C"
    using dq cq by (intro get_object_or_404_unique[where xs="?qs"])
      (auto simp: ordering_created_at_def)
  show ?thesis
    by (simp add: TaskCommentsViewSet_destroy_def
        TaskCommentsViewSet_get_queryset_eq [OF assms(1,2,3)] g)
qed

lemma CommentViewSet_destroy_eq:
  assumes "distinct (map tid (tasks d))" and "T \<in> set (tasks d)"
      and "task_board d T = Inr B"
      and "distinct (map cid (comments d))" and "C \<in> set (comments d)" and "task C = tid T"
  shows "CommentViewSet_destroy d U (tid T) (cid C) =
           (if U = owner B \<or> U \<in> set (members B)
            then (if author C \<noteq> U then (Inl permission_denied, d)
                  else (Inr (), d\<lparr>comments := filter (\<lambda>c. cid c \<noteq> cid C) (comments d)\<rparr>))
            else (Inl permission_denied, d))"
proof -
  let ?qs = "filter (\<lambda>c. task c = tid T) (comments d)"
  have dq: "distinct (map cid ?qs)"
    using assms(4) by (simp add: distinct_map_filter)
  have cq: "C \<in> set ?qs" using assms(5,6) by simp
  have g: "get_object_or_404 (sort_key created_at ?qs) cid (cid C) = Inr C"
    using dq cq by (intro get_object_or_404_unique[where xs="?qs"]) auto
  have ft: "find (\<lambda>t. tid t = tid T) (tasks d) = Some T"
    using assms(1,2) by (intro find_unique_pk[where xs="tasks d"]) auto
  have ct: "comment_task d C = Inr T"
    by (simp add: comment_task_def assms(6) ft)
  show ?thesis
    by (auto simp: CommentViewSet_destroy_def g ct IsBoardMember_has_permission_def
        IsBoardMember_has_object_permission_def assms(3)
        IsCommentAuthor_has_object_permission_def split: bool.splits)
qed

subsection \<open>Task creation, step by step\<close>

lemma find_pk_Some: "find (\<lambda>x. f x = k) xs = Some y \<Longrightarrow> f y = k \<and> y \<in> set xs"
  by (auto simp: find_Some_iff)

lemma field_errors1_nil_assignee:
  assumes "TaskSerializer_field_errors d p dat = []" and "data_assignee_id dat = Some (Some A)"
  shows "\<exists>u. find (\<lambda>u. uid u = A) (users d) = Some u \<and> uid u = A"
proof -
  have "find (\<lambda>u. uid u = A) (users d) \<noteq> None"
    using assms unfolding TaskSerializer_field_errors_def by (auto split: if_splits)
  then obtain u where "find (\<lambda>u. uid u = A) (users d) = Some u" by blast
  then show ?thesis using find_pk_Some[of uid A "users d" u] by blast
qed

lemma field_errors1_nil_reviewer:
  assumes "TaskSerializer_field_errors d p dat = []" and "data_reviewer_id dat = Some (Some A)"
  shows "\<exists>u. find (\<lambda>u. uid u = A) (users d) = Some u \<and> uid u = A"
proof -
  have "find (\<lambda>u. uid u = A) (users d) \<noteq> None"
    using assms unfolding TaskSerializer_field_errors_def by (auto split: if_splits)
  then obtain u where "find (\<lambda>u. uid u = A) (users d) = Some u" by blast
  then show ?thesis using find_pk_Some[of uid A "users d" u] by blast
qed

lemma TaskSerializer_validate_rejects_non_member:
  assumes "attrs_board attrs = Some B"
      and "(\<exists>u. attrs_assignee attrs = Some (Some u) \<and> uid u \<notin> set (members B))
         \<or> (\<exists>u. attrs_reviewer attrs = Some (Some u) \<and> uid u \<notin> set (members B))"
  shows "is_validation_error (TaskSerializer_validate d U None attrs)"
  using assms
  by (auto simp: TaskSerializer_validate_def TaskSerializer_get_board_def
      TaskSerializer_validate_board_access_def TaskSerializer_validate_user_role_def
      attrs_get_def split: sum.splits option.splits)

lemma TaskSerializer_is_valid_rejects_non_member:
  assumes "find (\<lambda>b. bid b = k) (boards d) = Some B" and "data_board dat = Some k"
      and "data_assignee_id dat = Some (Some A) \<or> data_reviewer_id dat = Some (Some A)"
      and "A \<notin> set (members B)"
  shows "is_validation_error (TaskSerializer_is_valid d U None False dat)"
proof (cases "TaskSerializer_field_errors d False dat = []")
  case False
  then show ?thesis
    by (simp add: TaskSerializer_is_valid_def TaskSerializer_to_internal_value_def)
next
  case True
  define attrs where "attrs = \<lparr>attrs_board = find (\<lambda>b. bid b = k) (boards d),
                attrs_title = map_option strip (data_task_title dat),
                attrs_description = map_option strip (data_description dat),
                attrs_status = data_status dat,
                attrs_priority = data_priority dat,
                attrs_assignee = related_user d (data_assignee_id dat),
                attrs_reviewer = related_user d (data_reviewer_id dat),
                attrs_due_date = data_due_date dat\<rparr>"
  have iv: "TaskSerializer_to_internal_value d False dat = Inr attrs"
    using True assms(2) by (simp add: TaskSerializer_to_internal_value_def attrs_def)
  have b: "attrs_board attrs = Some B" using assms(1) by (simp add: attrs_def)
  have "(\<exists>u. attrs_assignee attrs = Some (Some u) \<and> uid u \<notin> set (members B))
         \<or> (\<exists>u. attrs_reviewer attrs = Some (Some u) \<and> uid u \<notin> set (members B))"
    using assms(3)
  proof
    assume a: "data_assignee_id dat = Some (Some A)"
    from field_errors1_nil_assignee[OF True a] obtain u where
      "find (\<lambda>u. uid u = A) (users d) = Some u" "uid u = A" by blast
    then show ?thesis using a assms(4) by (auto simp: attrs_def related_user_def)
  next
    assume a: "data_reviewer_id dat = Some (Some A)"
    from field_errors1_nil_reviewer[OF True a] obtain u where
      "find (\<lambda>u. uid u = A) (users d) = Some u" "uid u = A" by blast
    then show ?thesis using a assms(4) by (auto simp: attrs_def related_user_def)
  qed
  from TaskSerializer_validate_rejects_non_member[OF b this]
  show ?thesis by (simp add: TaskSerializer_is_valid_def iv)
qed

lemma TaskViewSet1_create_rejects_non_member:
  assumes "distinct (map bid (boards d))" and "B \<in> set (boards d)" and "0 < bid B"
      and "data_board dat = Some (bid B)"
      and "data_assignee_id dat = Some (Some A) \<or> data_reviewer_id dat = Some (Some A)"
      and "A \<notin> set (members B)"
  shows "\<exists>es. TaskViewSet1_create d U dat =
           (if owner B = U \<or> U \<in> set (members B)
            then (Inl (HTTP_400_BAD_REQUEST es), d)
            else (Inl (HTTP_403_FORBIDDEN
                    ''You must be the board owner or a member to perform this action.''), d))"
proof -
  have f: "find (\<lambda>b. bid b = bid B) (boards d) = Some B"
    using assms(1,2) by (intro find_unique_pk[where xs="boards d"]) auto
  have "is_validation_error (TaskSerializer_is_valid d U None False dat)"
    using TaskSerializer_is_valid_rejects_non_member[OF f assms(4,5,6)] .
  then obtain es where "TaskSerializer_is_valid d U None False dat = Inl (HTTP_400_BAD_REQUEST es)"
    by (auto simp: is_validation_error_def split: sum.splits error.splits)
  then show ?thesis
    using assms(3)
    by (auto simp: TaskViewSet1_create_def IsBoardOwnerOrMember1_has_permission_def assms(4) f)
qed


lemma validate_board_user_cases:
  "validate_board_user d B A f r = Inr () \<or>
   (\<exists>es. validate_board_user d B A f r = Inl (HTTP_400_BAD_REQUEST es))"
  by (auto simp: validate_board_user_def split: option.splits)

lemma validate_board_user_rejects:
  assumes "A \<noteq> owner B" and "A \<notin> set (members B)"
  shows "\<exists>es. validate_board_user d B A f r = Inl (HTTP_400_BAD_REQUEST es)"
proof (cases "find (\<lambda>u. uid u = A) (users d)")
  case None
  then show ?thesis by (simp add: validate_board_user_def)
next
  case (Some u)
  then have "uid u = A" using find_pk_Some[of uid A "users d" u] by simp
  then show ?thesis using Some assms by (simp add: validate_board_user_def)
qed

lemma validate_board_user_accepts_owner:
  assumes "find (\<lambda>u. uid u = owner B) (users d) \<noteq> None"
  shows "validate_board_user d B (owner B) f r = Inr ()"
proof -
  obtain u where u: "find (\<lambda>u. uid u = owner B) (users d) = Some u" using assms by blast
  then have "uid u = owner B" using find_pk_Some[of uid "owner B" "users d" u] by simp
  then show ?thesis using u by (simp add: validate_board_user_def)
qed

lemma TaskCreateSerializer_validate_rejects:
  assumes "find (\<lambda>b. bid b = bid B') (boards d) = Some B" and "attrs2_board attrs = Some B'"
      and "attrs2_assignee_id attrs = Some (Some A) \<or> attrs2_reviewer_id attrs = Some (Some A)"
      and "0 < A" and "A \<noteq> owner B" and "A \<notin> set (members B)"
  shows "\<exists>es. TaskCreateSerializer_validate d attrs = Inl (HTTP_400_BAD_REQUEST es)"
proof -
  obtain es where r: "\<And>f r. \<exists>es. validate_board_user d B A f r = Inl (HTTP_400_BAD_REQUEST es)"
    using validate_board_user_rejects[OF assms(5,6)] by blast
  from assms(3) show ?thesis
  proof
    assume a: "attrs2_assignee_id attrs = Some (Some A)"
    obtain es where "validate_board_user d B A ''assignee_id'' ''Assignee''
        = Inl (HTTP_400_BAD_REQUEST es)" using r by blast
    then show ?thesis using a assms(1,2,4)
      by (simp add: TaskCreateSerializer_validate_def attrs_get_def)
  next
    assume a: "attrs2_reviewer_id attrs = Some (Some A)"
    obtain es where e: "validate_board_user d B A ''reviewer_id'' ''Reviewer''
        = Inl (HTTP_400_BAD_REQUEST es)" using r by blast
    show ?thesis
    proof (cases "attrs_get (attrs2_assignee_id attrs)")
      case None
      then show ?thesis using a e assms(1,2,4)
        by (simp add: TaskCreateSerializer_validate_def attrs_get_def)
    next
      case (Some k)
      show ?thesis
        using validate_board_user_cases[of d B k "''assignee_id''" "''Assignee''"] Some a e
          assms(1,2,4)
        by (auto simp: TaskCreateSerializer_validate_def attrs_get_def)
    qed
  qed
qed

lemma TaskViewSet2_create_rejects:
  assumes "distinct (map bid (boards d))" and "B \<in> set (boards d)"
      and "data_board dat = Some (bid B)"
      and "data_assignee_id dat = Some (Some A) \<or> data_reviewer_id dat = Some (Some A)"
      and "0 < A" and "A \<noteq> owner B" and "A \<notin> set (members B)"
  shows "(\<exists>es. TaskViewSet2_create d U dat = (Inl (HTTP_400_BAD_REQUEST es), d))
       \<or> (\<not> (owner B = U \<or> U \<in> set (members B))
           \<and> TaskViewSet2_create d U dat = (Inl permission_denied, d))"
proof -
  have f: "find (\<lambda>b. bid b = bid B) (boards d) = Some B"
    using assms(1,2) by (intro find_unique_pk[where xs="boards d"]) auto
  show ?thesis
  proof (cases "IsBoardMember_has_permission d U POST (data_board dat)")
    case False
    then have "\<not> (owner B = U \<or> U \<in> set (members B))"
      using f assms(3) by (auto simp: IsBoardMember_has_permission_def split: if_splits)
    then show ?thesis using False by (simp add: TaskViewSet2_create_def)
  next
    case True
    show ?thesis
    proof (cases "Task2_field_errors d True False dat = []")
      case False
      then show ?thesis using True
        by (simp add: TaskViewSet2_create_def Task2_to_internal_value_def)
    next
      case nil: True
      define attrs where "attrs = \<lparr>attrs2_board = find (\<lambda>b. bid b = bid B) (boards d),
                attrs2_title = map_option strip (data_task_title dat),
                attrs2_description = map_option strip (data_description dat),
                attrs2_status = data_status dat,
                attrs2_priority = data_priority dat,
                attrs2_assignee_id = data_assignee_id dat,
                attrs2_reviewer_id = data_reviewer_id dat,
                attrs2_due_date = data_due_date dat\<rparr>"
      have iv: "Task2_to_internal_value d True False dat = Inr attrs"
        using nil assms(3) by (simp add: Task2_to_internal_value_def attrs_def)
      have "\<exists>es. TaskCreateSerializer_validate d attrs = Inl (HTTP_400_BAD_REQUEST es)"
        using assms(4)
        by (intro TaskCreateSerializer_validate_rejects[where B=B and B'=B and A=A])
          (simp_all add: attrs_def f assms(5,6,7))
      then show ?thesis using True iv by (auto simp: TaskViewSet2_create_def)
    qed
  qed
qed

lemma TaskViewSet2_create_accepts_owner:
  assumes "distinct (map bid (boards d))" and "B \<in> set (boards d)"
      and "data_board dat = Some (bid B)"
      and "data_assignee_id dat = Some (Some (owner B))"
      and "find (\<lambda>u. uid u = owner B) (users d) \<noteq> None"
      and "data_reviewer_id dat = None"
      and "Task2_field_errors d True False dat = []"
      and "owner B = U \<or> U \<in> set (members B)"
  shows "\<exists>t. TaskViewSet2_create d U dat = (Inr t, d\<lparr>tasks := tasks d @ [t]\<rparr>)
           \<and> assignee t = Some (owner B) \<and> board t = bid B \<and> created_by t = U"
proof -
  have f: "find (\<lambda>b. bid b = bid B) (boards d) = Some B"
    using assms(1,2) by (intro find_unique_pk[where xs="boards d"]) auto
  have p: "IsBoardMember_has_permission d U POST (data_board dat)"
    using f assms(3,8) by (auto simp: IsBoardMember_has_permission_def)
  obtain t where t: "data_task_title dat = Some t"
    using assms(7)
    by (cases "data_task_title dat")
      (auto simp: Task2_field_errors_def required_error_def split: if_splits)
  define attrs where "attrs = \<lparr>attrs2_board = Some B,
                attrs2_title = Some (strip t),
                attrs2_description = map_option strip (data_description dat),
                attrs2_status = data_status dat,
                attrs2_priority = data_priority dat,
                attrs2_assignee_id = Some (Some (owner B)),
                attrs2_reviewer_id = None,
                attrs2_due_date = data_due_date dat\<rparr>"
  have iv: "Task2_to_internal_value d True False dat = Inr attrs"
    using assms(3,4,6,7) f t by (simp add: Task2_to_internal_value_def attrs_def)
  have va: "TaskCreateSerializer_validate d attrs = Inr attrs"
    using validate_board_user_accepts_owner[OF assms(5)]
    by (simp add: TaskCreateSerializer_validate_def attrs_def f attrs_get_def)
  have "\<exists>x. TaskCreateSerializer_create d U attrs = Inr x
          \<and> assignee x = Some (owner B) \<and> board x = bid B \<and> created_by x = U"
    using assms(5) by (simp add: TaskCreateSerializer_create_def attrs_def attrs_get_def fk_ok_def)
  then show ?thesis using p iv va by (auto simp: TaskViewSet2_create_def)
qed

subsection \<open>Task update, step by step\<close>

lemma TaskSerializer_validate_user_role_cases:
  "TaskSerializer_validate_user_role u b rl rn = Inr () \<or>
   (\<exists>es. TaskSerializer_validate_user_role u b rl rn = Inl (HTTP_400_BAD_REQUEST es))"
  by (auto simp: TaskSerializer_validate_user_role_def split: option.splits)

lemma TaskSerializer_validate_board_change:
  assumes "attrs_board attrs = Some b" and "bid b \<noteq> board T"
  shows "\<exists>es. TaskSerializer_validate d U (Some T) attrs = Inl (HTTP_400_BAD_REQUEST es)"
proof -
  have p: "TaskSerializer_prevent_board_change (Some T) attrs
      = Inl (HTTP_400_BAD_REQUEST [(''board'', ''Changing the board of a task is not allowed.'')])"
    using assms by (simp add: TaskSerializer_prevent_board_change_def)
  show ?thesis
    using TaskSerializer_validate_user_role_cases
            [of "attrs_get (attrs_assignee attrs)" b "''assignee''" "''Assignee''"]
          TaskSerializer_validate_user_role_cases
            [of "attrs_get (attrs_reviewer attrs)" b "''reviewer''" "''Reviewer''"]
    by (auto simp: TaskSerializer_validate_def TaskSerializer_get_board_def assms(1) p)
qed

lemma TaskSerializer_is_valid_board_change:
  assumes "data_board dat = Some k" and "k \<noteq> board T"
  shows "\<exists>es. TaskSerializer_is_valid d U (Some T) partial dat = Inl (HTTP_400_BAD_REQUEST es)"
proof (cases "TaskSerializer_field_errors d partial dat = []")
  case False
  then show ?thesis
    by (simp add: TaskSerializer_is_valid_def TaskSerializer_to_internal_value_def)
next
  case True
  have "find (\<lambda>b. bid b = k) (boards d) \<noteq> None"
    using True assms(1) unfolding TaskSerializer_field_errors_def by (auto split: if_splits)
  then obtain b where b: "find (\<lambda>b. bid b = k) (boards d) = Some b" by blast
  then have bk: "bid b = k" using find_pk_Some[of bid k "boards d" b] by simp
  define attrs where "attrs = \<lparr>attrs_board = Some b,
                attrs_title = map_option strip (data_task_title dat),
                attrs_description = map_option strip (data_description dat),
                attrs_status = data_status dat,
                attrs_priority = data_priority dat,
                attrs_assignee = related_user d (data_assignee_id dat),
                attrs_reviewer = related_user d (data_reviewer_id dat),
                attrs_due_date = data_due_date dat\<rparr>"
  have iv: "TaskSerializer_to_internal_value d partial dat = Inr attrs"
    using True assms(1) b by (simp add: TaskSerializer_to_internal_value_def attrs_def)
  have "\<exists>es. TaskSerializer_validate d U (Some T) attrs = Inl (HTTP_400_BAD_REQUEST es)"
    using bk assms(2)
    by (intro TaskSerializer_validate_board_change[where b=b]) (simp_all add: attrs_def)
  then show ?thesis by (simp add: TaskSerializer_is_valid_def iv)
qed

lemma TaskViewSet1_update_board_change:
  assumes "distinct (map tid (tasks d))" and "T \<in> set (tasks d)"
      and "task_board d T = Inr B"
      and "data_board dat = Some k" and "k \<noteq> board T"
  shows "\<exists>es. TaskViewSet1_update d U (tid T) partial dat =
           (if owner B = U \<or> U \<in> set (members B)
            then (Inl (HTTP_400_BAD_REQUEST es), d)
            else (Inl (HTTP_403_FORBIDDEN
                    ''You must be the board owner or a member to perform this action.''), d))"
proof -
  have g: "get_object_or_404 (tasks d) tid (tid T) = Inr T"
    using assms(1,2) by (intro get_object_or_404_unique[where xs="tasks d"]) auto
  obtain es where "TaskSerializer_is_valid d U (Some T) partial dat = Inl (HTTP_400_BAD_REQUEST es)"
    using TaskSerializer_is_valid_board_change[OF assms(4,5)] by blast
  then show ?thesis
    by (auto simp: TaskViewSet1_update_def IsBoardOwnerOrMember1_has_permission_def g
        IsBoardOwnerOrMember1_has_object_permission_def assms(3))
qed

lemma TaskViewSet2_update_ignores_board:
  assumes "method \<noteq> POST"
  shows "TaskViewSet2_update task_attr d U pk method dat
       = TaskViewSet2_update task_attr d U pk method (dat\<lparr>data_board := None\<rparr>)"
proof -
  have fe: "Task2_field_errors d False True dat
      = Task2_field_errors d False True (dat\<lparr>data_board := None\<rparr>)"
    by (simp add: Task2_field_errors_def split: option.splits)
  have iv: "Task2_to_internal_value d False True dat
      = Task2_to_internal_value d False True (dat\<lparr>data_board := None\<rparr>)"
    unfolding Task2_to_internal_value_def fe by simp
  have p: "IsBoardMember_has_permission d U method (data_board dat)
      = IsBoardMember_has_permission d U method (data_board (dat\<lparr>data_board := None\<rparr>))"
    using assms by (simp add: IsBoardMember_has_permission_def)
  show ?thesis unfolding TaskViewSet2_update_def iv p by simp
qed

lemma TaskViewSet2_get_object_row:
  assumes "distinct (map tid (tasks d))" and "T \<in> set (tasks d)"
      and "TaskViewSet2_get_object task_attr d U act method (tid T) = Inr obj"
  shows "obj = T"
proof -
  have g: "get_object_or_404 (tasks d) tid (tid T) = Inr T"
    using assms(1,2) by (intro get_object_or_404_unique[where xs="tasks d"]) auto
  show ?thesis using assms(3)
    by (auto simp: TaskViewSet2_get_object_def g split: sum.splits bool.splits if_splits)
qed

lemma Task_save_keeps_boards:
  assumes "distinct (map tid (tasks d))" and "T \<in> set (tasks d)"
      and "tid t = tid T" and "board t = board T"
  shows "map (\<lambda>x. (tid x, board x)) (tasks (Task_save d t))
       = map (\<lambda>x. (tid x, board x)) (tasks d)"
proof -
  have inj: "inj_on tid (set (tasks d))" using assms(1) by (simp add: distinct_map)
  have "\<forall>x \<in> set (tasks d). tid x = tid t \<longrightarrow> x = T"
    using inj assms(2,3) by (auto dest: inj_onD)
  then have "\<forall>x \<in> set (tasks d).
      (\<lambda>x. (tid x, board x)) (if tid x = tid t then t else x) = (tid x, board x)"
    using assms(3,4) by auto
  then show ?thesis by (simp add: Task_save_def comp_def cong: map_cong)
qed

lemma TaskViewSet2_update_keeps_boards:
  assumes "distinct (map tid (tasks d))" and "T \<in> set (tasks d)"
  shows "map (\<lambda>x. (tid x, board x)) (tasks (snd (TaskViewSet2_update task_attr d U (tid T) method dat)))
       = map (\<lambda>x. (tid x, board x)) (tasks d)"
proof (cases "TaskViewSet2_get_object task_attr d U A_update method (tid T)")
  case (Inl e)
  then show ?thesis by (simp add: TaskViewSet2_update_def)
next
  case (Inr obj)
  then have o: "obj = T" using TaskViewSet2_get_object_row[OF assms] by blast
  have k: "map (\<lambda>x. (tid x, board x)) (tasks (Task_save d (TaskUpdateSerializer_update T vd)))
       = map (\<lambda>x. (tid x, board x)) (tasks d)" for vd
    by (intro Task_save_keeps_boards[OF assms]) (simp_all add: TaskUpdateSerializer_update_def)
  show ?thesis using Inr o k
    by (auto simp: TaskViewSet2_update_def Let_def split: sum.splits)
qed

subsection \<open>Looking a user up\<close>

lemma filter_unique_key:
  "distinct (map f xs) \<Longrightarrow> x \<in> set xs \<Longrightarrow> filter (\<lambda>y. f y = f x) xs = [x]"
proof (induction xs)
  case Nil
  then show ?case by simp
next
  case (Cons a xs)
  show ?case
  proof (cases "a = x")
    case True
    have "f x \<notin> f ` set xs" using Cons.prems(1) True by simp
    then have "\<forall>y \<in> set xs. f y \<noteq> f x" by (metis imageI)
    then have "filter (\<lambda>y. f y = f x) xs = []" by (simp add: filter_empty_conv)
    then show ?thesis using True by simp
  next
    case False
    then have "x \<in> set xs" using Cons.prems(2) by simp
    moreover have "f a \<notin> f ` set xs" using Cons.prems(1) by simp
    then have "f a \<noteq> f x" using \<open>x \<in> set xs\<close> by (metis imageI)
    ultimately show ?thesis using Cons by simp
  qed
qed

lemma User_objects_get_email_unique:
  "distinct (map email (users d)) \<Longrightarrow> u \<in> set (users d)
     \<Longrightarrow> User_objects_get_email d (email u) = Row u"
  by (simp add: User_objects_get_email_def filter_unique_key)

lemma User_objects_get_email_none:
  "\<forall>u \<in> set (users d). email u \<noteq> e \<Longrightarrow> User_objects_get_email d e = DoesNotExist"
  by (simp add: User_objects_get_email_def filter_empty_conv)

lemma authenticate_unique:
  assumes "distinct (map username (users d))" and "u \<in> set (users d)"
  shows "authenticate d (username u) pw = (if check_password u pw \<and> is_active u then Some u else None)"
proof -
  have "find (\<lambda>x. username x = username u) (users d) = Some u"
    using assms by (intro find_unique_pk[where xs="users d"]) auto
  then show ?thesis by (simp add: authenticate_def)
qed

lemmas auth_defs = LoginView_post_def LoginSerializer_validate_email_def LoginSerializer_get_def
  User_objects_get_email_def login_def authenticate_def check_password_def auth_response_of_def
  LoginSerializer2_errors_def blank_error_def email_format_error_def has_at_def


subsection \<open>C1: who may delete a task\<close>

text \<open>
  The first variant deletes a stored task exactly for the owner of its board and for its
  assignee; every other caller is answered Forbidden and the store is unchanged.
\<close>

lemma TaskViewSet1_destroy_owner_or_assignee:
  assumes "distinct (map tid (tasks d1))" and "T1 \<in> set (tasks d1)"
      and "task_board d1 T1 = Inr B1"
  shows "(succeeds (fst (TaskViewSet1_destroy d1 U (tid T1)))
            \<longleftrightarrow> U = owner B1 \<or> assignee T1 = Some U)
       \<and> (\<not> (U = owner B1 \<or> assignee T1 = Some U)
            \<longrightarrow> is_forbidden (fst (TaskViewSet1_destroy d1 U (tid T1)))
              \<and> snd (TaskViewSet1_destroy d1 U (tid T1)) = d1)"
proof -
  note e1 = TaskViewSet1_destroy_eq [OF assms(1,2,3), of U]
  have a: "succeeds (fst (TaskViewSet1_destroy d1 U (tid T1)))
            \<longleftrightarrow> U = owner B1 \<or> assignee T1 = Some U"
    unfolding e1 by auto
  have b: "\<not> (U = owner B1 \<or> assignee T1 = Some U)
            \<longrightarrow> is_forbidden (fst (TaskViewSet1_destroy d1 U (tid T1)))
              \<and> snd (TaskViewSet1_destroy d1 U (tid T1)) = d1"
    unfolding e1 by auto
  from a b show ?thesis by blast
qed

text \<open>
  In the second variant \<^verbatim>\<open>IsBoardMember.has_object_permission\<close> is asked first, and it
  reads \<^verbatim>\<open>obj.task.board\<close> of the Task it is given. With no \<^verbatim>\<open>task\<close> attribute on
  a Task no delete succeeds, whoever calls, and the store stays as it is; whatever
  \<^verbatim>\<open>obj.task\<close> gives, a delete that succeeds was asked by the board's owner or by the
  user who created the task (\<^verbatim>\<open>IsTaskCreatorOrBoardOwner\<close>).
\<close>

lemma TaskViewSet2_destroy_never_succeeds:
  "\<not> succeeds (fst (TaskViewSet2_destroy task_attr_missing d U pk))
   \<and> snd (TaskViewSet2_destroy task_attr_missing d U pk) = d"
  by (auto simp: TaskViewSet2_destroy_def TaskViewSet2_get_object_def task_attr_missing_def
      IsBoardMember_has_object_permission_def succeeds_def split: sum.splits)

lemma TaskViewSet2_destroy_creator_or_owner:
  assumes "distinct (map tid (tasks d2))" and "T2 \<in> set (tasks d2)"
      and "task_board d2 T2 = Inr B2"
  shows "(succeeds (fst (TaskViewSet2_destroy task_attr d2 U (tid T2)))
            \<longrightarrow> U = owner B2 \<or> U = created_by T2)
       \<and> (\<not> succeeds (fst (TaskViewSet2_destroy task_attr d2 U (tid T2)))
            \<longrightarrow> snd (TaskViewSet2_destroy task_attr d2 U (tid T2)) = d2)"
  using TaskViewSet2_destroy_only_if [OF assms] TaskViewSet2_destroy_unchanged by blast

text \<open>
  Claim C1 at the input where the second variant departs from it. Task 1 is on board 1,
  whose owner is user 1; user 2 is the task's assignee. The second variant answers the
  owner's delete, and the assignee's, with a server error and keeps the task: the
  \<^verbatim>\<open>AttributeError\<close> of \<^verbatim>\<open>obj.task\<close> is raised before
  \<^verbatim>\<open>IsTaskCreatorOrBoardOwner\<close> is asked. The first variant deletes the task for
  either caller.
\<close>

theorem C1_second_variant_refuses_owner:
  "task_board db2_ex task_a2 = Inr (Board.extend board_a (Board2.fields 10 10))
   \<and> owner (Board.extend board_a (Board2.fields 10 10)) = 1
   \<and> tid task_a2 = 1 \<and> assignee task_a2 = Some 2
   \<and> TaskViewSet2_destroy task_attr_missing db2_ex 1 1
       = (Inl (HTTP_500_INTERNAL_SERVER_ERROR ''AttributeError''), db2_ex)
   \<and> TaskViewSet2_destroy task_attr_missing db2_ex 2 1
       = (Inl (HTTP_500_INTERNAL_SERVER_ERROR ''AttributeError''), db2_ex)
   \<and> TaskViewSet1_destroy db1_ex 1 1 = (Inr (), Task_delete db1_ex 1)
   \<and> TaskViewSet1_destroy db1_ex 2 1 = (Inr (), Task_delete db1_ex 1)"
  by (simp add: ex_defs TaskViewSet2_destroy_def TaskViewSet2_get_object_def
      get_object_or_404_def IsBoardMember_has_permission_def
      IsBoardMember_has_object_permission_def task_board_def task_attr_missing_def
      TaskViewSet1_destroy_def IsBoardOwner_or_IsTaskOwner_has_permission_def
      IsBoardOwner_or_IsTaskOwner_has_object_permission_def IsBoardOwner1_has_permission_def
      IsBoardOwner1_has_object_permission_def IsTaskOwner_has_permission_def
      IsTaskOwner_has_object_permission_def)

subsection \<open>C2: the assignee and the reviewer of a new task\<close>

text \<open>
  Claim C2, as amended. A creation request against a stored board B names a user A as
  assignee or as reviewer. In the first variant the creation fails unless A is in B's
  member set: it is never successful and the store is unchanged. In the second variant the
  same holds unless A is B's owner or in B's member set. In both variants the failure is a
  ValidationError when the caller is B's owner or a member of B, and Forbidden for any
  other caller, the board permission being asked before the validation (primary keys are
  positive). In the second variant a request by B's owner or member that names B's owner as
  assignee, names no reviewer and passes the field checks succeeds and stores the task with
  that assignee.
\<close>

theorem C2_task_create_assignee:
  assumes "distinct (map bid (boards d1))" and "B1 \<in> set (boards d1)" and "0 < bid B1"
      and "data_board data1 = Some (bid B1)"
      and "distinct (map bid (boards d2))" and "B2 \<in> set (boards d2)"
      and "data_board data2 = Some (bid B2)"
  shows "((data_assignee_id data1 = Some (Some A) \<or> data_reviewer_id data1 = Some (Some A))
           \<and> A \<notin> set (members B1)
          \<longrightarrow> \<not> succeeds (fst (TaskViewSet1_create d1 U data1))
              \<and> snd (TaskViewSet1_create d1 U data1) = d1
              \<and> (U = owner B1 \<or> U \<in> set (members B1)
                   \<longrightarrow> is_validation_error (fst (TaskViewSet1_create d1 U data1)))
              \<and> (\<not> (U = owner B1 \<or> U \<in> set (members B1))
                   \<longrightarrow> is_forbidden (fst (TaskViewSet1_create d1 U data1))))
       \<and> ((data_assignee_id data2 = Some (Some A) \<or> data_reviewer_id data2 = Some (Some A))
           \<and> 0 < A \<and> A \<noteq> owner B2 \<and> A \<notin> set (members B2)
          \<longrightarrow> \<not> succeeds (fst (TaskViewSet2_create d2 U data2))
              \<and> snd (TaskViewSet2_create d2 U data2) = d2
              \<and> (U = owner B2 \<or> U \<in> set (members B2)
                   \<longrightarrow> is_validation_error (fst (TaskViewSet2_create d2 U data2)))
              \<and> (0 < bid B2 \<and> \<not> (U = owner B2 \<or> U \<in> set (members B2))
                   \<longrightarrow> is_forbidden (fst (TaskViewSet2_create d2 U data2))))
       \<and> (data_assignee_id data2 = Some (Some (owner B2))
           \<and> find (\<lambda>u. uid u = owner B2) (users d2) \<noteq> None
           \<and> data_reviewer_id data2 = None
           \<and> Task2_field_errors d2 True False data2 = []
           \<and> (U = owner B2 \<or> U \<in> set (members B2))
          \<longrightarrow> (\<exists>t. TaskViewSet2_create d2 U data2 = (Inr t, d2\<lparr>tasks := tasks d2 @ [t]\<rparr>)
                  \<and> assignee t = Some (owner B2) \<and> board t = bid B2))"
proof -
  have 1: "\<not> succeeds (fst (TaskViewSet1_create d1 U data1))
              \<and> snd (TaskViewSet1_create d1 U data1) = d1
              \<and> (U = owner B1 \<or> U \<in> set (members B1)
                   \<longrightarrow> is_validation_error (fst (TaskViewSet1_create d1 U data1)))
              \<and> (\<not> (U = owner B1 \<or> U \<in> set (members B1))
                   \<longrightarrow> is_forbidden (fst (TaskViewSet1_create d1 U data1)))"
    if h: "data_assignee_id data1 = Some (Some A) \<or> data_reviewer_id data1 = Some (Some A)"
      "A \<notin> set (members B1)"
  proof -
    obtain es where "TaskViewSet1_create d1 U data1 =
           (if owner B1 = U \<or> U \<in> set (members B1)
            then (Inl (HTTP_400_BAD_REQUEST es), d1)
            else (Inl (HTTP_403_FORBIDDEN
                    ''You must be the board owner or a member to perform this action.''), d1))"
      using TaskViewSet1_create_rejects_non_member[OF assms(1,2,3,4) h] by blast
    then show ?thesis by auto
  qed
  have f2: "find (\<lambda>b. bid b = bid B2) (boards d2) = Some B2"
    using assms(5,6) by (intro find_unique_pk[where xs="boards d2"]) auto
  have 2: "\<not> succeeds (fst (TaskViewSet2_create d2 U data2))
              \<and> snd (TaskViewSet2_create d2 U data2) = d2
              \<and> (U = owner B2 \<or> U \<in> set (members B2)
                   \<longrightarrow> is_validation_error (fst (TaskViewSet2_create d2 U data2)))"
    if "data_assignee_id data2 = Some (Some A) \<or> data_reviewer_id data2 = Some (Some A)"
      and "0 < A" and "A \<noteq> owner B2" and "A \<notin> set (members B2)"
    using TaskViewSet2_create_rejects[OF assms(5,6,7) that, of U] by auto
  have 4: "is_forbidden (fst (TaskViewSet2_create d2 U data2))"
    if "0 < bid B2" and "\<not> (U = owner B2 \<or> U \<in> set (members B2))"
  proof -
    have "\<not> IsBoardMember_has_permission d2 U POST (data_board data2)"
      using that f2 by (auto simp: IsBoardMember_has_permission_def assms(7))
    then show ?thesis by (simp add: TaskViewSet2_create_def permission_denied_def)
  qed
  have 3: "\<exists>t. TaskViewSet2_create d2 U data2 = (Inr t, d2\<lparr>tasks := tasks d2 @ [t]\<rparr>)
                  \<and> assignee t = Some (owner B2) \<and> board t = bid B2"
    if "data_assignee_id data2 = Some (Some (owner B2))"
      and "find (\<lambda>u. uid u = owner B2) (users d2) \<noteq> None"
      and "data_reviewer_id data2 = None"
      and "Task2_field_errors d2 True False data2 = []"
      and "U = owner B2 \<or> U \<in> set (members B2)"
  proof -
    have "owner B2 = U \<or> U \<in> set (members B2)" using that(5) by auto
    from TaskViewSet2_create_accepts_owner[OF assms(5,6,7) that(1,2,3,4) this]
    show ?thesis by blast
  qed
  from 1 2 3 4 show ?thesis by blast
qed

theorem C2_witness:
  "is_validation_error (fst (TaskViewSet1_create db1_ex 1 task_data_outsider))
   \<and> is_validation_error (fst (TaskViewSet2_create db2_ex 1 task_data_outsider))
   \<and> snd (TaskViewSet2_create db2_ex 1 task_data_outsider) = db2_ex
   \<and> is_forbidden (fst (TaskViewSet1_create db1_ex 4 task_data_outsider))
   \<and> is_forbidden (fst (TaskViewSet2_create db2_ex 4 task_data_outsider))
   \<and> (\<exists>t. TaskViewSet2_create db2_ex 2 task_data_owner = (Inr t, db2_ex\<lparr>tasks := tasks db2_ex @ [t]\<rparr>)
          \<and> assignee t = Some 1 \<and> board t = 1)"
proof -
  have h1: "distinct (map bid (boards db1_ex))" "board_a \<in> set (boards db1_ex)"
    "0 < bid board_a" "data_board task_data_outsider = Some (bid board_a)"
    by (simp_all add: ex_defs data_ex_defs)
  have h2: "distinct (map bid (boards db2_ex))"
    "Board.extend board_a (Board2.fields 10 10) \<in> set (boards db2_ex)"
    "data_board task_data_outsider = Some (bid (Board.extend board_a (Board2.fields 10 10)))"
    "data_board task_data_owner = Some (bid (Board.extend board_a (Board2.fields 10 10)))"
    by (simp_all add: ex_defs data_ex_defs)
  have v: "owner board_a = 1" "members board_a = [2]"
    "owner (Board.extend board_a (Board2.fields 10 10)) = 1"
    "members (Board.extend board_a (Board2.fields 10 10)) = [2]"
    "bid (Board.extend board_a (Board2.fields 10 10)) = 1"
    "data_assignee_id task_data_outsider = Some (Some 4)"
    "data_assignee_id task_data_owner = Some (Some 1)"
    "data_reviewer_id task_data_owner = None"
    by (simp_all add: ex_defs data_ex_defs)
  have a: "is_validation_error (fst (TaskViewSet1_create db1_ex 1 task_data_outsider))
      \<and> is_validation_error (fst (TaskViewSet2_create db2_ex 1 task_data_outsider))
      \<and> snd (TaskViewSet2_create db2_ex 1 task_data_outsider) = db2_ex"
    using C2_task_create_assignee [OF h1 h2(1,2,3), of 4 1] by (simp add: v)
  have c: "is_forbidden (fst (TaskViewSet1_create db1_ex 4 task_data_outsider))
      \<and> is_forbidden (fst (TaskViewSet2_create db2_ex 4 task_data_outsider))"
    using C2_task_create_assignee [OF h1 h2(1,2,3), of 4 4] by (simp add: v)
  have fe: "Task2_field_errors db2_ex True False task_data_owner = []"
    "find (\<lambda>u. uid u = 1) (users db2_ex) \<noteq> None"
    by (simp_all add: ex_defs data_ex_defs Task2_field_errors_def strip_def isspace_def)
  have b: "\<exists>t. TaskViewSet2_create db2_ex 2 task_data_owner
              = (Inr t, db2_ex\<lparr>tasks := tasks db2_ex @ [t]\<rparr>)
          \<and> assignee t = Some 1 \<and> board t = 1"
    using C2_task_create_assignee [OF h1 h2(1,2,4), of 4 2] fe by (simp add: v)
  from a b c show ?thesis by blast
qed

text \<open>
  In the first variant the owner of board 1, who is not in its member set, creates a task
  on the board with themselves as assignee and is refused:
  \<^verbatim>\<open>_validate_user_role\<close> asks \<^verbatim>\<open>board.members\<close> only.
\<close>

theorem C2_counterexample:
  "owner board_a = 1 \<and> data_board task_data_owner = Some (bid board_a)
   \<and> data_assignee_id task_data_owner = Some (Some 1)
   \<and> TaskViewSet1_create db1_ex 1 task_data_owner
       = (Inl (HTTP_400_BAD_REQUEST [(''assignee'', ''Assignee must be Member of Board.'')]),
          db1_ex)"
  by (simp add: ex_defs data_ex_defs TaskViewSet1_create_def
      IsBoardOwnerOrMember1_has_permission_def TaskSerializer_is_valid_def
      TaskSerializer_to_internal_value_def TaskSerializer_field_errors_def
      TaskSerializer_validate_def TaskSerializer_get_board_def
      TaskSerializer_validate_board_access_def TaskSerializer_validate_user_role_def
      related_user_def attrs_get_def required_error_def strip_def isspace_def)

subsection \<open>C3: the board of a task on update\<close>

text \<open>
  Claim C3, as amended. An update request for a stored task T supplies a board different
  from T's. In the first variant the update fails and the store is unchanged: the owner
  and the members of T's board are answered with a ValidationError, every other caller
  with Forbidden. In the second variant the update serializer has no board field: a PUT or
  PATCH is answered exactly as the same request without the board key, and no task of the
  store changes its board.
\<close>

theorem C3_task_board_on_update:
  assumes "distinct (map tid (tasks d1))" and "T1 \<in> set (tasks d1)"
      and "task_board d1 T1 = Inr B1"
      and "data_board data1 = Some k" and "k \<noteq> board T1"
      and "distinct (map tid (tasks d2))" and "T2 \<in> set (tasks d2)"
      and "method \<noteq> POST"
  shows "(U = owner B1 \<or> U \<in> set (members B1)
            \<longrightarrow> is_validation_error (fst (TaskViewSet1_update d1 U (tid T1) partial data1)))
       \<and> (\<not> (U = owner B1 \<or> U \<in> set (members B1))
            \<longrightarrow> is_forbidden (fst (TaskViewSet1_update d1 U (tid T1) partial data1)))
       \<and> snd (TaskViewSet1_update d1 U (tid T1) partial data1) = d1
       \<and> TaskViewSet2_update task_attr d2 U (tid T2) method data2
           = TaskViewSet2_update task_attr d2 U (tid T2) method (data2\<lparr>data_board := None\<rparr>)
       \<and> map (\<lambda>x. (tid x, board x))
              (tasks (snd (TaskViewSet2_update task_attr d2 U (tid T2) method data2)))
           = map (\<lambda>x. (tid x, board x)) (tasks d2)"
proof -
  obtain es where e: "TaskViewSet1_update d1 U (tid T1) partial data1 =
           (if owner B1 = U \<or> U \<in> set (members B1)
            then (Inl (HTTP_400_BAD_REQUEST es), d1)
            else (Inl (HTTP_403_FORBIDDEN
                    ''You must be the board owner or a member to perform this action.''), d1))"
    using TaskViewSet1_update_board_change[OF assms(1,2,3,4,5)] by blast
  have 1: "U = owner B1 \<or> U \<in> set (members B1)
            \<longrightarrow> is_validation_error (fst (TaskViewSet1_update d1 U (tid T1) partial data1))"
    unfolding e by auto
  have 2: "\<not> (U = owner B1 \<or> U \<in> set (members B1))
            \<longrightarrow> is_forbidden (fst (TaskViewSet1_update d1 U (tid T1) partial data1))"
    unfolding e by auto
  have 3: "snd (TaskViewSet1_update d1 U (tid T1) partial data1) = d1"
    unfolding e by auto
  note 4 = TaskViewSet2_update_ignores_board[OF assms(8), of task_attr d2 U "tid T2" data2]
  note 5 = TaskViewSet2_update_keeps_boards[OF assms(6,7), of task_attr U "method" "data2"]
  from 1 2 3 4 5 show ?thesis by blast
qed

theorem C3_witness:
  "is_validation_error (fst (TaskViewSet1_update db1_ex 1 1 True task_data_move))
   \<and> is_forbidden (fst (TaskViewSet1_update db1_ex 4 1 True task_data_move))
   \<and> snd (TaskViewSet1_update db1_ex 1 1 True task_data_move) = db1_ex
   \<and> TaskViewSet2_update task_attr_missing db2_ex 1 1 PATCH task_data_move
       = TaskViewSet2_update task_attr_missing db2_ex 1 1 PATCH (task_data_move\<lparr>data_board := None\<rparr>)
   \<and> map (\<lambda>x. (tid x, board x))
          (tasks (snd (TaskViewSet2_update task_attr_missing db2_ex 1 1 PATCH task_data_move)))
       = [(1, 1), (2, 2)]"
proof -
  have h1: "distinct (map tid (tasks db1_ex))" "task_a \<in> set (tasks db1_ex)"
    "task_board db1_ex task_a = Inr board_a" "data_board task_data_move = Some 2"
    "2 \<noteq> board task_a"
    by (simp_all add: ex_defs data_ex_defs task_board_def)
  have h2: "distinct (map tid (tasks db2_ex))" "task_a2 \<in> set (tasks db2_ex)" "PATCH \<noteq> POST"
    by (simp_all add: ex_defs)
  have v: "tid task_a = 1" "owner board_a = 1" "members board_a = [2]" "tid task_a2 = 1"
    "map (\<lambda>x. (tid x, board x)) (tasks db2_ex) = [(1, 1), (2, 2)]"
    by (simp_all add: ex_defs)
  have a: "is_validation_error (fst (TaskViewSet1_update db1_ex 1 1 True task_data_move))
      \<and> snd (TaskViewSet1_update db1_ex 1 1 True task_data_move) = db1_ex
      \<and> TaskViewSet2_update task_attr_missing db2_ex 1 1 PATCH task_data_move
          = TaskViewSet2_update task_attr_missing db2_ex 1 1 PATCH (task_data_move\<lparr>data_board := None\<rparr>)
      \<and> map (\<lambda>x. (tid x, board x))
          (tasks (snd (TaskViewSet2_update task_attr_missing db2_ex 1 1 PATCH task_data_move)))
          = [(1, 1), (2, 2)]"
    using C3_task_board_on_update [OF h1 h2, of 1 True task_attr_missing task_data_move, unfolded v]
    by blast
  have b: "is_forbidden (fst (TaskViewSet1_update db1_ex 4 1 True task_data_move))"
    using C3_task_board_on_update [OF h1 h2, of 4 True task_attr_missing task_data_move]
    by (simp add: v)
  from a b show ?thesis by blast
qed

text \<open>
  A user outside board 1 who tries to move task 1 to board 2 is answered Forbidden by the
  first variant, not with a ValidationError. In the second variant the same request by the
  board's owner ends in a server error, a Task having no \<^verbatim>\<open>task\<close> attribute for
  \<^verbatim>\<open>IsBoardMember.has_object_permission\<close> to read; no ValidationError there either.
\<close>

theorem C3_counterexample:
  "data_board task_data_move = Some 2 \<and> board task_a = 1 \<and> board task_a2 = 1
   \<and> \<not> is_validation_error (fst (TaskViewSet1_update db1_ex 4 1 True task_data_move))
   \<and> is_forbidden (fst (TaskViewSet1_update db1_ex 4 1 True task_data_move))
   \<and> TaskViewSet2_update task_attr_missing db2_ex 1 1 PATCH task_data_move
       = (Inl (HTTP_500_INTERNAL_SERVER_ERROR ''AttributeError''), db2_ex)"
  by (simp add: ex_defs data_ex_defs TaskViewSet1_update_def
      IsBoardOwnerOrMember1_has_permission_def get_object_or_404_def
      IsBoardOwnerOrMember1_has_object_permission_def task_board_def
      TaskViewSet2_update_def IsBoardMember_has_permission_def TaskViewSet2_get_object_def
      IsBoardMember_has_object_permission_def task_attr_missing_def)

subsection \<open>C4: who may comment, list comments and delete a comment\<close>

text \<open>
  The first variant keeps comments to the board: listing and creating comments on a task
  succeed only for the owner and the members of the task's board, everyone else is answered
  Forbidden and the store is unchanged; deleting a comment succeeds only for its author.
  The second variant's delete is restricted to the author in the same way.
\<close>

lemma TaskCommentsViewSet_restricts_comments:
  assumes "distinct (map tid (tasks d1))" and "T1 \<in> set (tasks d1)"
      and "task_board d1 T1 = Inr B1"
      and "distinct (map cid (comments d1))" and "C1 \<in> set (comments d1)"
      and "task C1 = tid T1"
      and "distinct (map tid (tasks d2))" and "T2 \<in> set (tasks d2)"
      and "task_board d2 T2 = Inr B2"
      and "distinct (map cid (comments d2))" and "C2 \<in> set (comments d2)"
      and "task C2 = tid T2"
  shows "(succeeds (TaskCommentsViewSet_list d1 U (tid T1))
            \<longleftrightarrow> U = owner B1 \<or> U \<in> set (members B1))
       \<and> (succeeds (fst (TaskCommentsViewSet_create d1 now U (tid T1) c))
            \<longrightarrow> U = owner B1 \<or> U \<in> set (members B1))
       \<and> (\<not> (U = owner B1 \<or> U \<in> set (members B1))
            \<longrightarrow> is_forbidden (TaskCommentsViewSet_list d1 U (tid T1))
              \<and> is_forbidden (fst (TaskCommentsViewSet_create d1 now U (tid T1) c))
              \<and> snd (TaskCommentsViewSet_create d1 now U (tid T1) c) = d1)
       \<and> (succeeds (fst (TaskCommentsViewSet_destroy d1 U (tid T1) (cid C1)))
            \<longrightarrow> U = author C1)
       \<and> (U \<noteq> author C1
            \<longrightarrow> is_forbidden (fst (TaskCommentsViewSet_destroy d1 U (tid T1) (cid C1)))
              \<and> snd (TaskCommentsViewSet_destroy d1 U (tid T1) (cid C1)) = d1)
       \<and> (succeeds (fst (CommentViewSet_destroy d2 U (tid T2) (cid C2)))
            \<longrightarrow> U = author C2)
       \<and> (U \<noteq> author C2
            \<longrightarrow> is_forbidden (fst (CommentViewSet_destroy d2 U (tid T2) (cid C2)))
              \<and> snd (CommentViewSet_destroy d2 U (tid T2) (cid C2)) = d2)"
proof -
  note q = TaskCommentsViewSet_get_queryset_eq [OF assms(1,2,3), of U]
  note c = TaskCommentsViewSet_create_eq [OF assms(1,2,3), of now U c]
  note x = TaskCommentsViewSet_destroy_eq [OF assms(1,2,3,4,5,6), of U]
  note y = CommentViewSet_destroy_eq [OF assms(7,8,9,10,11,12), of U]
  have 1: "succeeds (TaskCommentsViewSet_list d1 U (tid T1))
            \<longleftrightarrow> U = owner B1 \<or> U \<in> set (members B1)"
    unfolding TaskCommentsViewSet_list_def q by auto
  have 2: "succeeds (fst (TaskCommentsViewSet_create d1 now U (tid T1) c))
            \<longrightarrow> U = owner B1 \<or> U \<in> set (members B1)"
    unfolding c by (auto split: if_splits)
  have 3: "\<not> (U = owner B1 \<or> U \<in> set (members B1))
            \<longrightarrow> is_forbidden (TaskCommentsViewSet_list d1 U (tid T1))
              \<and> is_forbidden (fst (TaskCommentsViewSet_create d1 now U (tid T1) c))
              \<and> snd (TaskCommentsViewSet_create d1 now U (tid T1) c) = d1"
    unfolding TaskCommentsViewSet_list_def q c by auto
  have 4: "succeeds (fst (TaskCommentsViewSet_destroy d1 U (tid T1) (cid C1)))
            \<longrightarrow> U = author C1"
    unfolding x by (auto split: if_splits)
  have 5: "U \<noteq> author C1
            \<longrightarrow> is_forbidden (fst (TaskCommentsViewSet_destroy d1 U (tid T1) (cid C1)))
              \<and> snd (TaskCommentsViewSet_destroy d1 U (tid T1) (cid C1)) = d1"
    unfolding x by auto
  have 6: "succeeds (fst (CommentViewSet_destroy d2 U (tid T2) (cid C2)))
            \<longrightarrow> U = author C2"
    unfolding y by (auto split: if_splits)
  have 7: "U \<noteq> author C2
            \<longrightarrow> is_forbidden (fst (CommentViewSet_destroy d2 U (tid T2) (cid C2)))
              \<and> snd (CommentViewSet_destroy d2 U (tid T2) (cid C2)) = d2"
    unfolding y by auto
  from 1 2 3 4 5 6 7 show ?thesis by blast
qed

text \<open>
  Claim C4 at the input where the second variant departs from it. User 4 is neither the
  owner nor a member of the board of task 1. \<^verbatim>\<open>CommentViewSet.create\<close> stores the
  user's comment and \<^verbatim>\<open>CommentViewSet.list\<close> shows the task's comments to the user:
  \<^verbatim>\<open>IsBoardMember.has_permission\<close> only looks at a \<^verbatim>\<open>board\<close> key of a POST body,
  and neither view reaches \<^verbatim>\<open>has_object_permission\<close>. The first variant answers
  both requests with Forbidden.
\<close>

theorem C4_second_variant_admits_outsider:
  "4 \<noteq> owner (Board.extend board_a (Board2.fields 10 10))
   \<and> 4 \<notin> set (members (Board.extend board_a (Board2.fields 10 10)))
   \<and> task_board db2_ex task_a2 = Inr (Board.extend board_a (Board2.fields 10 10))
   \<and> fst (CommentViewSet_create db2_ex 7 4 1 \<lparr>data_content = Some ''hi'', data_comment_board = None\<rparr>)
       = Inr \<lparr>cid = 3, task = 1, author = 4, content = ''hi'', created_at = 7\<rparr>
   \<and> CommentViewSet_list db2_ex 4 1 = Inr [comment_a]
   \<and> is_forbidden (TaskCommentsViewSet_list db1_ex 4 1)
   \<and> is_forbidden (fst (TaskCommentsViewSet_create db1_ex 7 4 1 (Some ''hi'')))"
  by (simp add: ex_defs CommentViewSet_create_def CommentViewSet_list_def
      IsBoardMember_has_permission_def CommentSerializer_is_valid_def next_pk_def
      task_board_def TaskCommentsViewSet_list_def TaskCommentsViewSet_get_queryset_def
      TaskCommentsViewSet_create_def get_object_or_404_def Let_def strip_def isspace_def)

subsection \<open>C5: who may retrieve and update a board\<close>

text \<open>
  Claim C5. For a stored board, retrieving it succeeds exactly for its owner and its
  members, and an update passes the permission stage (is neither Forbidden nor NotFound)
  exactly for them. Anyone else is answered Forbidden by the first variant and NotFound by
  the second, and the store is left as it was. Primary keys identify rows.
\<close>

theorem C5_board_retrieve_update:
  assumes "distinct (map bid (boards d1))" and "B1 \<in> set (boards d1)"
      and "distinct (map bid (boards d2))" and "B2 \<in> set (boards d2)"
  shows "(succeeds (BoardViewSet1_retrieve d1 U (bid B1))
            \<longleftrightarrow> U = owner B1 \<or> U \<in> set (members B1))
       \<and> (\<not> (U = owner B1 \<or> U \<in> set (members B1))
            \<longrightarrow> is_forbidden (BoardViewSet1_retrieve d1 U (bid B1)))
       \<and> (\<not> is_forbidden (fst (BoardViewSet1_update d1 U (bid B1) data))
          \<and> \<not> is_not_found (fst (BoardViewSet1_update d1 U (bid B1) data))
            \<longleftrightarrow> U = owner B1 \<or> U \<in> set (members B1))
       \<and> (\<not> (U = owner B1 \<or> U \<in> set (members B1))
            \<longrightarrow> is_forbidden (fst (BoardViewSet1_update d1 U (bid B1) data))
              \<and> snd (BoardViewSet1_update d1 U (bid B1) data) = d1)
       \<and> (succeeds (BoardViewSet2_retrieve d2 U (bid B2))
            \<longleftrightarrow> U = owner B2 \<or> U \<in> set (members B2))
       \<and> (\<not> (U = owner B2 \<or> U \<in> set (members B2))
            \<longrightarrow> is_not_found (BoardViewSet2_retrieve d2 U (bid B2)))
       \<and> (\<not> is_forbidden (fst (BoardViewSet2_update d2 now U (bid B2) data))
          \<and> \<not> is_not_found (fst (BoardViewSet2_update d2 now U (bid B2) data))
            \<longleftrightarrow> U = owner B2 \<or> U \<in> set (members B2))
       \<and> (\<not> (U = owner B2 \<or> U \<in> set (members B2))
            \<longrightarrow> is_not_found (fst (BoardViewSet2_update d2 now U (bid B2) data))
              \<and> snd (BoardViewSet2_update d2 now U (bid B2) data) = d2)"
proof -
  have g1: "BoardViewSet1_get_object d1 U act (bid B1) =
      (if owner B1 = U \<or> U \<in> set (members B1) then Inr B1 else Inl permission_denied)"
    if "act \<in> {A_retrieve, A_update, A_partial_update, A_destroy}" for act
    using BoardViewSet1_get_object_eq[OF assms(1,2) that] .
  have g2: "BoardViewSet2_get_object d2 U act (bid B2) =
      (if owner B2 = U \<or> U \<in> set (members B2)
       then (if BoardViewSet2_get_permissions act U B2 then Inr B2 else Inl permission_denied)
       else Inl (HTTP_404_NOT_FOUND ''Not found.''))" for act
    using BoardViewSet2_get_object_eq[OF assms(3,4)] .
  have p2: "BoardViewSet2_get_permissions act U B2 = (owner B2 = U \<or> U \<in> set (members B2))"
    if "act \<in> {A_retrieve, A_update}" for act
    using that by (auto simp: BoardViewSet2_get_permissions_def
        IsBoardOwnerOrMember2_has_object_permission_def)
  have r1: "succeeds (BoardViewSet1_retrieve d1 U (bid B1))
            \<longleftrightarrow> U = owner B1 \<or> U \<in> set (members B1)"
    by (auto simp: BoardViewSet1_retrieve_def g1)
  have r1': "\<not> (U = owner B1 \<or> U \<in> set (members B1))
            \<longrightarrow> is_forbidden (BoardViewSet1_retrieve d1 U (bid B1))"
    by (auto simp: BoardViewSet1_retrieve_def g1)
  have u1: "\<not> is_forbidden (fst (BoardViewSet1_update d1 U (bid B1) data))
          \<and> \<not> is_not_found (fst (BoardViewSet1_update d1 U (bid B1) data))
            \<longleftrightarrow> U = owner B1 \<or> U \<in> set (members B1)"
    by (auto simp: BoardViewSet1_update_def g1 validate_members_def Let_def
        split: option.splits sum.splits if_splits)
  have u1': "\<not> (U = owner B1 \<or> U \<in> set (members B1))
            \<longrightarrow> is_forbidden (fst (BoardViewSet1_update d1 U (bid B1) data))
              \<and> snd (BoardViewSet1_update d1 U (bid B1) data) = d1"
    by (auto simp: BoardViewSet1_update_def g1)
  have r2: "succeeds (BoardViewSet2_retrieve d2 U (bid B2))
            \<longleftrightarrow> U = owner B2 \<or> U \<in> set (members B2)"
    by (auto simp: BoardViewSet2_retrieve_def g2 p2)
  have r2': "\<not> (U = owner B2 \<or> U \<in> set (members B2))
            \<longrightarrow> is_not_found (BoardViewSet2_retrieve d2 U (bid B2))"
    by (auto simp: BoardViewSet2_retrieve_def g2 p2)
  have u2: "\<not> is_forbidden (fst (BoardViewSet2_update d2 now U (bid B2) data))
          \<and> \<not> is_not_found (fst (BoardViewSet2_update d2 now U (bid B2) data))
            \<longleftrightarrow> U = owner B2 \<or> U \<in> set (members B2)"
    by (auto simp: BoardViewSet2_update_def g2 p2 Let_def split: option.splits)
  have u2': "\<not> (U = owner B2 \<or> U \<in> set (members B2))
            \<longrightarrow> is_not_found (fst (BoardViewSet2_update d2 now U (bid B2) data))
              \<and> snd (BoardViewSet2_update d2 now U (bid B2) data) = d2"
    by (auto simp: BoardViewSet2_update_def g2 p2)
  from r1 r1' u1 u1' r2 r2' u2 u2' show ?thesis by blast
qed

theorem C5_witness:
  "succeeds (BoardViewSet1_retrieve db1_ex 2 1)
   \<and> is_forbidden (BoardViewSet1_retrieve db1_ex 3 1)
   \<and> succeeds (fst (BoardViewSet1_update db1_ex 1 1 \<lparr>data_title = Some ''Sprint 1b'', data_members = None\<rparr>))
   \<and> succeeds (BoardViewSet2_retrieve db2_ex 2 1)
   \<and> is_not_found (BoardViewSet2_retrieve db2_ex 3 1)
   \<and> succeeds (fst (BoardViewSet2_update db2_ex 30 1 1 \<lparr>data_title = Some ''Sprint 1b'', data_members = None\<rparr>))"
proof -
  have h1: "distinct (map bid (boards db1_ex))" "board_a \<in> set (boards db1_ex)"
    by (simp_all add: db1_ex_def board_a_def board_b_def)
  have h2: "distinct (map bid (boards db2_ex))"
    "Board.extend board_a (Board2.fields 10 10) \<in> set (boards db2_ex)"
    by (simp_all add: db2_ex_def board_a_def board_b_def Board.extend_def)
  have b1: "bid board_a = 1" "owner board_a = 1" "members board_a = [2]"
    by (simp_all add: board_a_def)
  have b2: "bid (Board.extend board_a (Board2.fields 10 10)) = 1"
    "owner (Board.extend board_a (Board2.fields 10 10)) = 1"
    "members (Board.extend board_a (Board2.fields 10 10)) = [2]"
    by (simp_all add: board_a_def Board.extend_def)
  have m: "succeeds (BoardViewSet1_retrieve db1_ex 2 1)
         \<and> succeeds (BoardViewSet2_retrieve db2_ex 2 1)"
    using C5_board_retrieve_update [OF h1 h2, of 2] by (simp add: b1 b2)
  have o: "is_forbidden (BoardViewSet1_retrieve db1_ex 3 1)
         \<and> is_not_found (BoardViewSet2_retrieve db2_ex 3 1)"
    using C5_board_retrieve_update [OF h1 h2, of 3] by (simp add: b1 b2)
  have u: "\<not> is_forbidden (fst (BoardViewSet1_update db1_ex 1 1 \<lparr>data_title = Some ''Sprint 1b'', data_members = None\<rparr>))
      \<and> \<not> is_forbidden (fst (BoardViewSet2_update db2_ex 30 1 1 \<lparr>data_title = Some ''Sprint 1b'', data_members = None\<rparr>))"
    using C5_board_retrieve_update [OF h1 h2, of 1 "\<lparr>data_title = Some ''Sprint 1b'', data_members = None\<rparr>" 30]
    by (simp add: b1 b2)
  have s1: "succeeds (fst (BoardViewSet1_update db1_ex 1 1 \<lparr>data_title = Some ''Sprint 1b'', data_members = None\<rparr>))"
    by (simp add: BoardViewSet1_update_def BoardViewSet1_get_object_def get_object_or_404_def
        BoardViewSet1_get_queryset_def ordering_neg_id_def db1_ex_def board_a_def board_b_def
        IsBoardMemberOrOwner_has_object_permission_def Let_def strip_def isspace_def)
  have s2: "succeeds (fst (BoardViewSet2_update db2_ex 30 1 1 \<lparr>data_title = Some ''Sprint 1b'', data_members = None\<rparr>))"
    by (simp add: BoardViewSet2_update_def BoardViewSet2_get_object_def get_object_or_404_def
        BoardViewSet2_get_queryset_def db2_ex_def board_a_def board_b_def Board.extend_def
        BoardViewSet2_get_permissions_def IsBoardOwnerOrMember2_has_object_permission_def Let_def strip_def isspace_def)
  from m o s1 s2 show ?thesis by blast
qed

subsection \<open>C6: deleting a board\<close>

text \<open>
  Claim C6. Deleting a stored board succeeds exactly for its owner. Any other caller is
  rejected (Forbidden, or NotFound in the second variant for a caller outside the board)
  and the store is unchanged. After a successful delete the store holds no board with that
  key, no task of that board, and no comment of a task that belonged to it.
\<close>

theorem C6_board_delete:
  assumes "distinct (map bid (boards d1))" and "B1 \<in> set (boards d1)"
      and "distinct (map bid (boards d2))" and "B2 \<in> set (boards d2)"
  shows "(succeeds (fst (BoardViewSet1_destroy d1 U (bid B1))) \<longleftrightarrow> U = owner B1)
       \<and> (U \<noteq> owner B1 \<longrightarrow> is_forbidden (fst (BoardViewSet1_destroy d1 U (bid B1)))
                              \<and> snd (BoardViewSet1_destroy d1 U (bid B1)) = d1)
       \<and> (U = owner B1 \<longrightarrow>
            (\<forall>b \<in> set (boards (snd (BoardViewSet1_destroy d1 U (bid B1)))). bid b \<noteq> bid B1)
          \<and> (\<forall>t \<in> set (tasks (snd (BoardViewSet1_destroy d1 U (bid B1)))). board t \<noteq> bid B1)
          \<and> (\<forall>c \<in> set (comments (snd (BoardViewSet1_destroy d1 U (bid B1)))).
               \<forall>t \<in> set (tasks d1). board t = bid B1 \<longrightarrow> task c \<noteq> tid t))
       \<and> (succeeds (fst (BoardViewSet2_destroy d2 U (bid B2))) \<longleftrightarrow> U = owner B2)
       \<and> (U \<noteq> owner B2 \<longrightarrow>
            (is_forbidden (fst (BoardViewSet2_destroy d2 U (bid B2)))
               \<or> is_not_found (fst (BoardViewSet2_destroy d2 U (bid B2))))
            \<and> snd (BoardViewSet2_destroy d2 U (bid B2)) = d2)
       \<and> (U = owner B2 \<longrightarrow>
            (\<forall>b \<in> set (boards (snd (BoardViewSet2_destroy d2 U (bid B2)))). bid b \<noteq> bid B2)
          \<and> (\<forall>t \<in> set (tasks (snd (BoardViewSet2_destroy d2 U (bid B2)))). board t \<noteq> bid B2)
          \<and> (\<forall>c \<in> set (comments (snd (BoardViewSet2_destroy d2 U (bid B2)))).
               \<forall>t \<in> set (tasks d2). board t = bid B2 \<longrightarrow> task c \<noteq> tid t))"
proof -
  have g1: "BoardViewSet1_get_object d1 U A_destroy (bid B1) =
      (if owner B1 = U \<or> U \<in> set (members B1) then Inr B1 else Inl permission_denied)"
    using BoardViewSet1_get_object_eq[OF assms(1,2), of A_destroy] by simp
  have g2: "BoardViewSet2_get_object d2 U A_destroy (bid B2) =
      (if owner B2 = U \<or> U \<in> set (members B2)
       then (if owner B2 = U then Inr B2 else Inl permission_denied)
       else Inl (HTTP_404_NOT_FOUND ''Not found.''))"
    using BoardViewSet2_get_object_eq[OF assms(3,4), of U A_destroy]
    by (simp add: BoardViewSet2_get_permissions_def IsBoardOwner2_has_object_permission_def)
  have e1: "BoardViewSet1_destroy d1 U (bid B1) =
      (if owner B1 = U then (Inr (), Board_delete d1 (bid B1))
       else if U \<in> set (members B1)
       then (Inl (HTTP_403_FORBIDDEN ''Just Owner can Delete.''), d1)
       else (Inl permission_denied, d1))"
    by (simp add: BoardViewSet1_destroy_def g1)
  have e2: "BoardViewSet2_destroy d2 U (bid B2) =
      (if owner B2 = U then (Inr (), Board_delete d2 (bid B2))
       else if U \<in> set (members B2) then (Inl permission_denied, d2)
       else (Inl (HTTP_404_NOT_FOUND ''Not found.''), d2))"
    by (simp add: BoardViewSet2_destroy_def g2)
  have a1: "succeeds (fst (BoardViewSet1_destroy d1 U (bid B1))) \<longleftrightarrow> U = owner B1"
    unfolding e1 by auto
  have a2: "U \<noteq> owner B1 \<longrightarrow> is_forbidden (fst (BoardViewSet1_destroy d1 U (bid B1)))
                              \<and> snd (BoardViewSet1_destroy d1 U (bid B1)) = d1"
    unfolding e1 by auto
  have a3: "U = owner B1 \<longrightarrow> snd (BoardViewSet1_destroy d1 U (bid B1)) = Board_delete d1 (bid B1)"
    unfolding e1 by auto
  have b1: "succeeds (fst (BoardViewSet2_destroy d2 U (bid B2))) \<longleftrightarrow> U = owner B2"
    unfolding e2 by auto
  have b2: "U \<noteq> owner B2 \<longrightarrow>
            (is_forbidden (fst (BoardViewSet2_destroy d2 U (bid B2)))
               \<or> is_not_found (fst (BoardViewSet2_destroy d2 U (bid B2))))
            \<and> snd (BoardViewSet2_destroy d2 U (bid B2)) = d2"
    unfolding e2 by auto
  have b3: "U = owner B2 \<longrightarrow> snd (BoardViewSet2_destroy d2 U (bid B2)) = Board_delete d2 (bid B2)"
    unfolding e2 by auto
  have c: "(\<forall>b \<in> set (boards (Board_delete d k)). bid b \<noteq> k)
          \<and> (\<forall>t \<in> set (tasks (Board_delete d k)). board t \<noteq> k)
          \<and> (\<forall>c \<in> set (comments (Board_delete d k)).
               \<forall>t \<in> set (tasks d). board t = k \<longrightarrow> task c \<noteq> tid t)"
    for d :: "('x Board_scheme, 'y Task_scheme) db" and k
    by (auto simp: Board_delete_def)
  show ?thesis
    using a1 a2 a3 b1 b2 b3 c[of d1 "bid B1"] c[of d2 "bid B2"] by presburger
qed

theorem C6_witness:
  "succeeds (fst (BoardViewSet1_destroy db1_ex 1 1))
   \<and> tasks (snd (BoardViewSet1_destroy db1_ex 1 1)) = [task_b]
   \<and> comments (snd (BoardViewSet1_destroy db1_ex 1 1)) = [comment_b]
   \<and> is_forbidden (fst (BoardViewSet1_destroy db1_ex 2 1))
   \<and> snd (BoardViewSet1_destroy db1_ex 2 1) = db1_ex
   \<and> succeeds (fst (BoardViewSet2_destroy db2_ex 1 1))
   \<and> tasks (snd (BoardViewSet2_destroy db2_ex 1 1)) = [task_b2]
   \<and> comments (snd (BoardViewSet2_destroy db2_ex 1 1)) = [comment_b]
   \<and> snd (BoardViewSet2_destroy db2_ex 2 1) = db2_ex"
proof -
  have h1: "distinct (map bid (boards db1_ex))" "board_a \<in> set (boards db1_ex)"
    by (simp_all add: db1_ex_def board_a_def board_b_def)
  have h2: "distinct (map bid (boards db2_ex))"
    "Board.extend board_a (Board2.fields 10 10) \<in> set (boards db2_ex)"
    by (simp_all add: db2_ex_def board_a_def board_b_def Board.extend_def)
  have b1: "bid board_a = 1" "owner board_a = 1"
    by (simp_all add: board_a_def)
  have b2: "bid (Board.extend board_a (Board2.fields 10 10)) = 1"
    "owner (Board.extend board_a (Board2.fields 10 10)) = 1"
    by (simp_all add: board_a_def Board.extend_def)
  have own: "succeeds (fst (BoardViewSet1_destroy db1_ex 1 1))
      \<and> succeeds (fst (BoardViewSet2_destroy db2_ex 1 1))"
    using C6_board_delete [OF h1 h2, of 1] by (simp add: b1 b2)
  have oth: "is_forbidden (fst (BoardViewSet1_destroy db1_ex 2 1))
      \<and> snd (BoardViewSet1_destroy db1_ex 2 1) = db1_ex
      \<and> snd (BoardViewSet2_destroy db2_ex 2 1) = db2_ex"
    using C6_board_delete [OF h1 h2, of 2] by (simp add: b1 b2)
  have g1: "BoardViewSet1_destroy db1_ex 1 1 = (Inr (), Board_delete db1_ex 1)"
    by (simp add: BoardViewSet1_destroy_def BoardViewSet1_get_object_def get_object_or_404_def
        BoardViewSet1_get_queryset_def ordering_neg_id_def db1_ex_def board_a_def board_b_def
        IsBoardMemberOrOwner_has_object_permission_def)
  have g2: "BoardViewSet2_destroy db2_ex 1 1 = (Inr (), Board_delete db2_ex 1)"
    by (simp add: BoardViewSet2_destroy_def BoardViewSet2_get_object_def get_object_or_404_def
        BoardViewSet2_get_queryset_def db2_ex_def board_a_def board_b_def Board.extend_def
        BoardViewSet2_get_permissions_def IsBoardOwner2_has_object_permission_def)
  have rest: "tasks (snd (BoardViewSet1_destroy db1_ex 1 1)) = [task_b]
      \<and> comments (snd (BoardViewSet1_destroy db1_ex 1 1)) = [comment_b]
      \<and> tasks (snd (BoardViewSet2_destroy db2_ex 1 1)) = [task_b2]
      \<and> comments (snd (BoardViewSet2_destroy db2_ex 1 1)) = [comment_b]"
    unfolding g1 g2 by (simp add: Board_delete_def ex_defs)
  from own oth rest show ?thesis by blast
qed

subsection \<open>C7: listing boards\<close>

text \<open>
  Claim C7, as amended. In both variants the list holds exactly the stored boards whose
  owner is the caller or whose members contain the caller, each once. The first variant
  orders them by descending primary key, the most recently created first. The second
  variant declares no ordering and asks for none, so nothing is stated of the order of its
  list.
\<close>

theorem C7_list_boards:
  "set (BoardViewSet1_list d1 U) = {b \<in> set (boards d1). owner b = U \<or> U \<in> set (members b)}
   \<and> distinct (BoardViewSet1_list d1 U)
   \<and> sorted_wrt (\<lambda>x y. bid y \<le> bid x) (BoardViewSet1_list d1 U)
   \<and> set (BoardViewSet2_list d2 U) = {b \<in> set (boards d2). owner b = U \<or> U \<in> set (members b)}
   \<and> distinct (BoardViewSet2_list d2 U)"
proof -
  have "distinct (BoardViewSet1_list d1 U)"
    by (simp add: BoardViewSet1_list_def BoardViewSet1_get_queryset_def ordering_neg_id_def)
  moreover have "sorted_wrt (\<lambda>x y. bid y \<le> bid x) (BoardViewSet1_list d1 U)"
    by (simp add: BoardViewSet1_list_def BoardViewSet1_get_queryset_def sorted_wrt_ordering_neg_id)
  moreover have "set (BoardViewSet1_list d1 U)
        = {b \<in> set (boards d1). owner b = U \<or> U \<in> set (members b)}"
    by (auto simp: BoardViewSet1_list_def BoardViewSet1_get_queryset_def)
  moreover have "set (BoardViewSet2_list d2 U)
        = {b \<in> set (boards d2). owner b = U \<or> U \<in> set (members b)}"
    by (auto simp: BoardViewSet2_list_def BoardViewSet2_get_queryset_def)
  moreover have "distinct (BoardViewSet2_list d2 U)"
    by (simp add: BoardViewSet2_list_def BoardViewSet2_get_queryset_def)
  ultimately show ?thesis by blast
qed

text \<open>
  Answered in the order of the table, which the second variant's query permits, the two
  boards of user 1 come the older one first.
\<close>

theorem C7_counterexample:
  "\<not> sorted_wrt (\<lambda>x y. bid y \<le> bid x) (BoardViewSet2_list db2_ex 1)"
  by (simp add: BoardViewSet2_list_def BoardViewSet2_get_queryset_def db2_ex_def
      Board.extend_def board_a_def board_b_def)

subsection \<open>C8: login\<close>

text \<open>
  Claim C8, as amended. Emails identify users (and, in the second variant, usernames do);
  the request carries a well-formed email and a non-blank password, so that the fields'
  own checks pass. First variant: when no user has the email the login fails with the ValidationError
  "Invalid Email." on the email field; when the user exists and the password check fails it
  fails with the different error "Invalid password."; otherwise it returns the token with
  the user's fullname, email and id. Second variant: both failures are answered with the
  same 400 response "Invalid credentials."; an active user with the right password gets the
  token with fullname, email and id.
\<close>

theorem C8_login:
  assumes "distinct (map email (users d1))"
      and "distinct (map email (users d2))" and "distinct (map username (users d2))"
      and "login_email r \<noteq> []" and "EmailValidator (login_email r)"
      and "login_password r \<noteq> []"
  shows "((\<forall>u \<in> set (users d1). email u \<noteq> login_email r)
            \<longrightarrow> LoginView_post EmailValidator d1 r = Inl (HTTP_400_BAD_REQUEST [(''email'', ''Invalid Email.'')]))
       \<and> (\<forall>u \<in> set (users d1). email u = login_email r \<longrightarrow>
             (\<not> check_password u (login_password r)
                \<longrightarrow> LoginView_post EmailValidator d1 r = Inl (HTTP_400_BAD_REQUEST [(''error'', ''Invalid password.'')]))
           \<and> (check_password u (login_password r)
                \<longrightarrow> LoginView_post EmailValidator d1 r = Inr (Token (uid u), fullname u, email u, uid u)))
       \<and> ((\<forall>u \<in> set (users d2). email u \<noteq> login_email r)
            \<longrightarrow> login EmailValidator d2 r = Inl (HTTP_400_BAD_REQUEST [(''error'', ''Invalid credentials.'')]))
       \<and> (\<forall>u \<in> set (users d2). email u = login_email r \<longrightarrow>
             (\<not> check_password u (login_password r)
                \<longrightarrow> login EmailValidator d2 r = Inl (HTTP_400_BAD_REQUEST [(''error'', ''Invalid credentials.'')]))
           \<and> (check_password u (login_password r) \<and> is_active u
                \<longrightarrow> login EmailValidator d2 r = Inr (Token (uid u), fullname u, email u, uid u)))"
proof -
  have 1: "LoginView_post EmailValidator d1 r = Inl (HTTP_400_BAD_REQUEST [(''email'', ''Invalid Email.'')])"
    if "\<forall>u \<in> set (users d1). email u \<noteq> login_email r"
    using that assms(4,5,6)
    by (simp add: LoginView_post_def LoginSerializer_validate_email_def filter_empty_conv
        blank_error_def)
  have 2: "(\<not> check_password u (login_password r)
                \<longrightarrow> LoginView_post EmailValidator d1 r = Inl (HTTP_400_BAD_REQUEST [(''error'', ''Invalid password.'')]))
           \<and> (check_password u (login_password r)
                \<longrightarrow> LoginView_post EmailValidator d1 r = Inr (Token (uid u), fullname u, email u, uid u))"
    if u: "u \<in> set (users d1)" "email u = login_email r" for u
  proof -
    have g: "User_objects_get_email d1 (login_email r) = Row u"
      using User_objects_get_email_unique[OF assms(1) u(1)] u(2) by simp
    have f: "filter (\<lambda>x. email x = login_email r) (users d1) \<noteq> []"
      using u by (auto simp: filter_empty_conv)
    show ?thesis
      using assms(4,5,6)
      by (simp add: LoginView_post_def LoginSerializer_validate_email_def f
          LoginSerializer_get_def g auth_response_of_def blank_error_def)
  qed
  have 3: "login EmailValidator d2 r = Inl (HTTP_400_BAD_REQUEST [(''error'', ''Invalid credentials.'')])"
    if "\<forall>u \<in> set (users d2). email u \<noteq> login_email r"
    using User_objects_get_email_none[OF that] assms(4,5,6)
    by (simp add: login_def LoginSerializer2_errors_def blank_error_def email_format_error_def)
  have 4: "(\<not> check_password u (login_password r)
                \<longrightarrow> login EmailValidator d2 r = Inl (HTTP_400_BAD_REQUEST [(''error'', ''Invalid credentials.'')]))
           \<and> (check_password u (login_password r) \<and> is_active u
                \<longrightarrow> login EmailValidator d2 r = Inr (Token (uid u), fullname u, email u, uid u))"
    if u: "u \<in> set (users d2)" "email u = login_email r" for u
  proof -
    have g: "User_objects_get_email d2 (login_email r) = Row u"
      using User_objects_get_email_unique[OF assms(2) u(1)] u(2) by simp
    show ?thesis
      using assms(4,5,6)
      by (simp add: login_def g authenticate_unique[OF assms(3) u(1)] auth_response_of_def
          LoginSerializer2_errors_def blank_error_def email_format_error_def)
  qed
  from 1 2 3 4 show ?thesis by blast
qed

theorem C8_witness:
  "LoginView_post has_at db1_ex \<lparr>login_email = ''nobody@x.org'', login_password = ''pw-of-a@x.org''\<rparr>
     = Inl (HTTP_400_BAD_REQUEST [(''email'', ''Invalid Email.'')])
   \<and> LoginView_post has_at db1_ex \<lparr>login_email = ''a@x.org'', login_password = ''wrong''\<rparr>
     = Inl (HTTP_400_BAD_REQUEST [(''error'', ''Invalid password.'')])
   \<and> LoginView_post has_at db1_ex \<lparr>login_email = ''a@x.org'', login_password = ''pw-of-a@x.org''\<rparr>
     = Inr (Token 1, ''a@x.org'', ''a@x.org'', 1)
   \<and> login has_at db2_ex \<lparr>login_email = ''a@x.org'', login_password = ''pw-of-a@x.org''\<rparr>
     = Inr (Token 1, ''a@x.org'', ''a@x.org'', 1)"
proof -
  have h: "distinct (map email (users db1_ex))" "distinct (map email (users db2_ex))"
    "distinct (map username (users db2_ex))"
    by (simp_all add: ex_defs)
  have u: "user_ex 1 ''a@x.org'' \<in> set (users db1_ex)" "user_ex 1 ''a@x.org'' \<in> set (users db2_ex)"
    by (simp_all add: ex_defs)
  have n: "\<forall>u \<in> set (users db1_ex). email u \<noteq> ''nobody@x.org''"
    by (simp add: ex_defs)
  have e: "has_at ''nobody@x.org''" "has_at ''a@x.org''" by (simp_all add: has_at_def)
  have a: "LoginView_post has_at db1_ex \<lparr>login_email = ''nobody@x.org'', login_password = ''pw-of-a@x.org''\<rparr>
     = Inl (HTTP_400_BAD_REQUEST [(''email'', ''Invalid Email.'')])"
    using C8_login [OF h, of "\<lparr>login_email = ''nobody@x.org'', login_password = ''pw-of-a@x.org''\<rparr>" has_at]
      n e
    by simp
  have b: "LoginView_post has_at db1_ex \<lparr>login_email = ''a@x.org'', login_password = ''wrong''\<rparr>
     = Inl (HTTP_400_BAD_REQUEST [(''error'', ''Invalid password.'')])"
    using C8_login [OF h, of "\<lparr>login_email = ''a@x.org'', login_password = ''wrong''\<rparr>" has_at] u e
    by (auto simp: user_ex_def check_password_def)
  have c: "LoginView_post has_at db1_ex \<lparr>login_email = ''a@x.org'', login_password = ''pw-of-a@x.org''\<rparr>
     = Inr (Token 1, ''a@x.org'', ''a@x.org'', 1)
   \<and> login has_at db2_ex \<lparr>login_email = ''a@x.org'', login_password = ''pw-of-a@x.org''\<rparr>
     = Inr (Token 1, ''a@x.org'', ''a@x.org'', 1)"
    using C8_login [OF h, of "\<lparr>login_email = ''a@x.org'', login_password = ''pw-of-a@x.org''\<rparr>" has_at]
      u e
    by (auto simp: user_ex_def check_password_def)
  from a b c show ?thesis by blast
qed

text \<open>
  The second variant answers an unknown email and a wrong password with the same error.
\<close>

theorem C8_counterexample:
  "login has_at db2_ex \<lparr>login_email = ''nobody@x.org'', login_password = ''pw-of-a@x.org''\<rparr>
     = Inl (HTTP_400_BAD_REQUEST [(''error'', ''Invalid credentials.'')])
   \<and> login has_at db2_ex \<lparr>login_email = ''a@x.org'', login_password = ''wrong''\<rparr>
     = Inl (HTTP_400_BAD_REQUEST [(''error'', ''Invalid credentials.'')])"
  by (simp add: ex_defs auth_defs)

subsection \<open>C9: registration\<close>




subsection \<open>C10: member\_count in the two variants\<close>

text \<open>
  Claim C10, as amended. For boards with the same member rows, the second variant's
  \<^verbatim>\<open>Board.member_count\<close> is one more than the first variant's
  \<^verbatim>\<open>get_member_count\<close>: it counts the owner as well.
\<close>

theorem C10_member_count_counts_owner:
  "members b2 = members b1 \<Longrightarrow> member_count b2 = get_member_count b1 + 1"
  by (simp add: member_count_def get_member_count_def)

theorem C10_witness:
  "member_count (Board.extend board_a (Board2.fields 10 10)) = get_member_count board_a + 1"
  using C10_member_count_counts_owner [of "Board.extend board_a (Board2.fields 10 10)" board_a]
  by (simp add: Board.extend_def board_a_def)

text \<open>The counts differ on a board with one member: 2 against 1.\<close>

theorem C10_counterexample:
  "member_count (Board.extend board_a (Board2.fields 10 10)) \<noteq> get_member_count board_a"
  by (simp add: member_count_def get_member_count_def Board.extend_def board_a_def)

end
